theory Spec2Isabelle
  imports Complex_Main
begin

section \<open>Size and coverage recommendation engine\<close>

text \<open>
  A shallow embedding of the recommendation route handlers
  \<^verbatim>\<open>src/app/size/recommend/route.ts\<close> (called the page route below) and the second
  handler of \<^verbatim>\<open>src/app/api/size/recommend/route.ts\<close>, lines 155 to 310 (called the
  api route below; its definitions carry the suffix \<open>_api\<close> where the two differ).

  Conventions of the model.
  \<^item> A JavaScript number is the real value of a double. The operations of the unit
    conversions and of the chart distance round their result to the nearest double
    (\<open>fl\<close>, 53 bits, ties to even), and so do those of the bra estimate; the exponent
    range is not bounded, so there is no overflow to infinity and no underflow. The
    body-mass index, whose \<open>Math.pow\<close> the language leaves to the implementation, is
    computed exactly.
  \<^item> An optional field is an \<open>option\<close>: \<open>None\<close> stands for \<open>undefined\<close> and for
    \<open>null\<close>, which every test of the handlers treats alike. The record \<open>BodyIn\<close> is
    the request as its TypeScript type declares it; the normalization of a field of any
    JSON type is modelled on \<open>jsval\<close>.
  \<^item> The bra string is a list of Unicode code points. The other strings are only
    compared with ASCII literals and are lists of 8-bit characters.
  \<^item> The analytics client is outside the repository: what \<open>createClient\<close> does when
    the module is loaded, the result of the awaited insert, the uppercase mapping of the
    code points beyond ASCII and the conversion of non-numbers to numbers are parameters.
\<close>

subsection \<open>JavaScript primitives\<close>

definition truthy :: "real option \<Rightarrow> bool" where
  \<comment> \<open>the truth value of an optional number: \<open>undefined\<close> and \<open>0\<close> are falsy\<close>
  "truthy v = (case v of None \<Rightarrow> False | Some x \<Rightarrow> x \<noteq> 0)"

definition truthy_str :: "'a list option \<Rightarrow> bool" where
  \<comment> \<open>the truth value of an optional string: \<open>undefined\<close> and the empty string are falsy\<close>
  "truthy_str v = (case v of None \<Rightarrow> False | Some s \<Rightarrow> s \<noteq> [])"

definition or_null :: "string option \<Rightarrow> string option" where
  \<comment> \<open>\<open>x || null\<close> on an optional string\<close>
  "or_null v = (if truthy_str v then v else None)"

definition Math_round :: "real \<Rightarrow> real" where
  \<comment> \<open>\<open>Math.round\<close>: the nearest integer, halves rounded up\<close>
  "Math_round x = of_int \<lfloor>x + 1 / 2\<rfloor>"

fun join :: "string \<Rightarrow> string list \<Rightarrow> string" where
  "join sep [] = []"
| "join sep [x] = x"
| "join sep (x # y # ys) = x @ sep @ join sep (y # ys)"

subsection \<open>Double-precision rounding\<close>

definition pow2 :: "int \<Rightarrow> real" where
  "pow2 e = (if 0 \<le> e then 2 ^ nat e else 1 / 2 ^ nat (- e))"

function ilog2 :: "real \<Rightarrow> int" where
  \<comment> \<open>the exponent of a positive number: the \<open>e\<close> with \<open>pow2 e \<le> x < pow2 (e + 1)\<close>\<close>
  "ilog2 x = (if x \<le> 0 then 0
              else if 2 \<le> x then ilog2 (x / 2) + 1
              else if x < 1 then ilog2 (x * 2) - 1
              else 0)"
  by pat_completeness auto
termination
proof (relation "measure (\<lambda>x. nat \<bar>\<lfloor>log 2 x\<rfloor>\<bar>)")
  show "wf (measure (\<lambda>x. nat \<bar>\<lfloor>log 2 x\<rfloor>\<bar>))" by simp
next
  fix x :: real
  assume "\<not> x \<le> 0" "2 \<le> x"
  then have "1 \<le> log 2 x" by (simp add: le_log_iff)
  then have "1 \<le> \<lfloor>log 2 x\<rfloor>" by linarith
  moreover have "log 2 (x / 2) = log 2 x - 1"
    using \<open>\<not> x \<le> 0\<close> by (simp add: log_divide)
  ultimately show "(x / 2, x) \<in> measure (\<lambda>x. nat \<bar>\<lfloor>log 2 x\<rfloor>\<bar>)"
    by simp
next
  fix x :: real
  assume "\<not> x \<le> 0" "\<not> 2 \<le> x" "x < 1"
  then have "log 2 x < 0" by simp
  then have "\<lfloor>log 2 x\<rfloor> \<le> - 1" by linarith
  moreover have "log 2 (x * 2) = log 2 x + 1"
    using \<open>\<not> x \<le> 0\<close> by (simp add: log_mult)
  ultimately show "(x * 2, x) \<in> measure (\<lambda>x. nat \<bar>\<lfloor>log 2 x\<rfloor>\<bar>)"
    by simp
qed

declare ilog2.simps [simp del]

definition rne :: "real \<Rightarrow> int" where
  \<comment> \<open>the nearest integer, halves rounded to the even neighbour\<close>
  "rne x =
    (let f = \<lfloor>x\<rfloor> in
     if x - of_int f < 1 / 2 then f
     else if 1 / 2 < x - of_int f then f + 1
     else if even f then f else f + 1)"

definition fl :: "real \<Rightarrow> real" where
  \<comment> \<open>the double nearest to \<open>x\<close>: 53 significant bits, ties to even\<close>
  "fl x = (if x = 0 then 0 else let q = pow2 (ilog2 \<bar>x\<bar> - 52) in of_int (rne (x / q)) * q)"

subsection \<open>The size chart\<close>

type_synonym Range = "real \<times> real"

record SizeRow =
  label :: string
  bust_range :: Range
  waist_range :: Range
  hip_range :: Range

definition SIZE_CHART :: "SizeRow list" where
  "SIZE_CHART =
    [\<lparr>label = ''S'',   bust_range = (80, 86),   waist_range = (64, 70),  hip_range = (86, 94)\<rparr>,
     \<lparr>label = ''M'',   bust_range = (87, 94),   waist_range = (71, 78),  hip_range = (95, 101)\<rparr>,
     \<lparr>label = ''L'',   bust_range = (95, 101),  waist_range = (79, 86),  hip_range = (102, 108)\<rparr>,
     \<lparr>label = ''XL'',  bust_range = (102, 108), waist_range = (87, 94),  hip_range = (109, 115)\<rparr>,
     \<lparr>label = ''XXL'', bust_range = (109, 116), waist_range = (95, 104), hip_range = (116, 124)\<rparr>]"

subsection \<open>Height and weight heuristic\<close>

definition sizeByHW :: "real option \<Rightarrow> real option \<Rightarrow> string option" where
  "sizeByHW height_cm weight_kg =
    (if \<not> truthy height_cm \<or> \<not> truthy weight_kg then None
     else
       let bmi = the weight_kg / (the height_cm / 100) ^ 2 in
       if bmi < 21 then Some ''S''
       else if bmi < 24 then Some ''M''
       else if bmi < 27 then Some ''L''
       else if bmi < 31 then Some ''XL''
       else Some ''XXL'')"

subsection \<open>Unit conversions\<close>

definition inToCm :: "real \<Rightarrow> real" where
  \<comment> \<open>\<open>inches * 2.54\<close>, in both routes\<close>
  "inToCm inches = fl (inches * fl 2.54)"


definition lbToKg :: "real \<Rightarrow> real" where
  \<comment> \<open>\<open>n * 0.453592\<close>: \<^verbatim>\<open>src/unnamed/part_000\<close>, line 18, and inline in both routes\<close>
  "lbToKg n = fl (n * fl 0.453592)"

subsection \<open>Bra string\<close>

type_synonym jstring = "nat list"
  \<comment> \<open>a JavaScript string, as the list of its Unicode code points\<close>

definition js :: "string \<Rightarrow> jstring" where
  \<comment> \<open>an ASCII literal as a JavaScript string\<close>
  "js s = map of_char s"

definition is_space :: "nat \<Rightarrow> bool" where
  \<comment> \<open>the class \<open>\s\<close> of ECMAScript: tab, line feed, vertical tab, form feed, carriage
      return, space, U+00A0, U+1680, U+2000 to U+200A, U+2028, U+2029, U+202F, U+205F, U+3000
      and U+FEFF\<close>
  "is_space c =
    (c \<in> {9, 10, 11, 12, 13, 32, 160, 5760, 8232, 8233, 8239, 8287, 12288, 65279}
     \<or> (8192 \<le> c \<and> c \<le> 8202))"

definition is_digit :: "nat \<Rightarrow> bool" where
  \<comment> \<open>\<open>\d\<close>\<close>
  "is_digit c = (48 \<le> c \<and> c \<le> 57)"

definition is_upper :: "nat \<Rightarrow> bool" where
  \<comment> \<open>\<open>[A-Z]\<close>\<close>
  "is_upper c = (65 \<le> c \<and> c \<le> 90)"

definition digit_val :: "nat \<Rightarrow> nat" where
  "digit_val c = c - 48"

definition toUpperCase :: "(nat \<Rightarrow> jstring) \<Rightarrow> jstring \<Rightarrow> jstring" where
  \<comment> \<open>every code point is replaced by its uppercase mapping: \<open>a\<close> to \<open>z\<close> become \<open>A\<close> to
      \<open>Z\<close>, every other ASCII code point stays, and a code point beyond ASCII becomes
      \<open>up c\<close>, where \<open>up\<close> is the uppercase mapping of Unicode (which may give several code
      points, as for U+00DF)\<close>
  "toUpperCase up s =
    concat (map (\<lambda>c. if 97 \<le> c \<and> c \<le> 122 then [c - 32] else if c < 128 then [c] else up c) s)"

definition strip_spaces :: "jstring \<Rightarrow> jstring" where
  \<comment> \<open>\<open>replace(/\s+/g, "")\<close>\<close>
  "strip_spaces s = filter (\<lambda>c. \<not> is_space c) s"

definition match_bra :: "jstring \<Rightarrow> (jstring \<times> jstring) option" where
  \<comment> \<open>\<open>match(/^(\d{2})([A-Z]+)$/)\<close>: the two groups, or no match\<close>
  "match_bra s =
    (case s of
       d1 # d2 # cup \<Rightarrow>
         if is_digit d1 \<and> is_digit d2 \<and> cup \<noteq> [] \<and> list_all is_upper cup
         then Some ([d1, d2], cup) else None
     | _ \<Rightarrow> None)"

definition parseInt10 :: "jstring \<Rightarrow> nat" where
  \<comment> \<open>\<open>parseInt(s, 10)\<close> on a string of decimal digits\<close>
  "parseInt10 s = foldl (\<lambda>n c. 10 * n + digit_val c) 0 s"

definition parseBra :: "(nat \<Rightarrow> jstring) \<Rightarrow> jstring option \<Rightarrow> nat option \<times> jstring option" where
  "parseBra up bra =
    (if \<not> truthy_str bra then (None, None)
     else case match_bra (toUpperCase up (strip_spaces (the bra))) of
            None \<Rightarrow> (None, None)
          | Some (m1, m2) \<Rightarrow> (Some (parseInt10 m1), Some m2))"

definition cupMap :: "jstring \<rightharpoonup> real" where
  "cupMap = map_of [(js ''A'', 2.5), (js ''B'', 5), (js ''C'', 7.5), (js ''D'', 10),
                    (js ''DD'', 12.5), (js ''E'', 12.5), (js ''F'', 15)]"

subsection \<open>Chart lookup\<close>

record cand =
  c_label :: string
  score :: nat
  dist_c :: real

definition mid :: "real \<Rightarrow> real \<Rightarrow> real" where
  \<comment> \<open>\<open>(a + b) / 2\<close>\<close>
  "mid a b = fl (fl (a + b) / 2)"

definition clampDist :: "real option \<Rightarrow> real \<Rightarrow> real \<Rightarrow> real" where
  \<comment> \<open>\<open>clampDist\<close> of the page route and \<open>dist\<close> of the api route\<close>
  "clampDist val lo hi =
    (case val of
       None \<Rightarrow> 0
     | Some v \<Rightarrow>
         if v < lo then fl (lo - v)
         else if v > hi then fl (v - hi)
         else fl (\<bar>fl (v - mid lo hi)\<bar> * fl 0.1))"

definition in_range :: "real option \<Rightarrow> Range \<Rightarrow> bool" where
  \<comment> \<open>\<open>v != null && v >= r[0] && v <= r[1]\<close>\<close>
  "in_range val r = (case val of None \<Rightarrow> False | Some v \<Rightarrow> v \<ge> fst r \<and> v \<le> snd r)"

definition row_score :: "real option \<Rightarrow> real option \<Rightarrow> real option \<Rightarrow> SizeRow \<Rightarrow> nat" where
  \<comment> \<open>the three conditional \<open>score++\<close>\<close>
  "row_score bust_cm waist_cm hip_cm s =
     (if in_range bust_cm (bust_range s) then 1 else 0)
   + (if in_range waist_cm (waist_range s) then 1 else 0)
   + (if in_range hip_cm (hip_range s) then 1 else 0)"

definition row_cand :: "real option \<Rightarrow> real option \<Rightarrow> real option \<Rightarrow> SizeRow \<Rightarrow> cand" where
  \<comment> \<open>the candidate that one iteration of the page route's loop builds from the row
      \<open>s\<close>: \<open>let dist = 0\<close>, then three times \<open>dist += clampDist(...)\<close>\<close>
  "row_cand bust_cm waist_cm hip_cm s =
    \<lparr>c_label = label s,
     score = row_score bust_cm waist_cm hip_cm s,
     dist_c = fl (fl (fl (0 + clampDist bust_cm (fst (bust_range s)) (snd (bust_range s)))
                      + clampDist waist_cm (fst (waist_range s)) (snd (waist_range s)))
                  + clampDist hip_cm (fst (hip_range s)) (snd (hip_range s)))\<rparr>"

definition row_cand_api :: "real option \<Rightarrow> real option \<Rightarrow> real option \<Rightarrow> SizeRow \<Rightarrow> cand" where
  \<comment> \<open>the same in the api route: \<open>d = dist(bustCm, s.bust) + dist(waistCm, s.waist)
      + dist(hipCm, s.hip)\<close>\<close>
  "row_cand_api bustCm waistCm hipCm s =
    \<lparr>c_label = label s,
     score = row_score bustCm waistCm hipCm s,
     dist_c = fl (fl (clampDist bustCm (fst (bust_range s)) (snd (bust_range s))
                      + clampDist waistCm (fst (waist_range s)) (snd (waist_range s)))
                  + clampDist hipCm (fst (hip_range s)) (snd (hip_range s)))\<rparr>"

definition update_best :: "cand option \<Rightarrow> cand \<Rightarrow> cand option" where
  \<comment> \<open>\<open>if (!best || cand.score > best.score || (cand.score === best.score &&
      cand.dist < best.dist)) best = cand\<close>\<close>
  "update_best best c =
    (case best of
       None \<Rightarrow> Some c
     | Some b \<Rightarrow>
         if score c > score b \<or> (score c = score b \<and> dist_c c < dist_c b)
         then Some c else Some b)"

fun scan :: "(SizeRow \<Rightarrow> cand) \<Rightarrow> cand option \<Rightarrow> SizeRow list \<Rightarrow> cand option" where
  \<comment> \<open>\<open>for (const s of SIZE_CHART)\<close>, with the candidate of a row given by \<open>mk\<close>\<close>
  "scan mk best [] = best"
| "scan mk best (s # ss) = scan mk (update_best best (mk s)) ss"

definition label_or_null :: "cand option \<Rightarrow> string option" where
  \<comment> \<open>\<open>best?.label || null\<close>\<close>
  "label_or_null best =
    (case best of None \<Rightarrow> None | Some b \<Rightarrow> if c_label b = [] then None else Some (c_label b))"

definition pickFromChart :: "real option \<Rightarrow> real option \<Rightarrow> real option \<Rightarrow> string option" where
  \<comment> \<open>page route: the guard is \<open>!bust_cm && !waist_cm && !hip_cm\<close>\<close>
  "pickFromChart bust_cm waist_cm hip_cm =
    (if \<not> truthy bust_cm \<and> \<not> truthy waist_cm \<and> \<not> truthy hip_cm then None
     else label_or_null (scan (row_cand bust_cm waist_cm hip_cm) None SIZE_CHART))"

definition pickFromChart_api :: "real option \<Rightarrow> real option \<Rightarrow> real option \<Rightarrow> string option" where
  \<comment> \<open>api route: the guard is \<open>bustCm == null && waistCm == null && hipCm == null\<close>\<close>
  "pickFromChart_api bustCm waistCm hipCm =
    (if bustCm = None \<and> waistCm = None \<and> hipCm = None then None
     else label_or_null (scan (row_cand_api bustCm waistCm hipCm) None SIZE_CHART))"

subsection \<open>Coverage and advice text\<close>

definition chooseCoverage :: "string option \<Rightarrow> string option \<Rightarrow> bool \<Rightarrow> string option \<Rightarrow> string" where
  "chooseCoverage activity modesty tummy pref =
    (if pref = Some ''burkini'' then ''burkini''
     else if pref = Some ''swimdress'' then ''knee length''
     else if pref = Some ''rashguard'' then ''one-piece + rash guard''
     else if modesty = Some ''high'' then ''burkini''
     else if activity = Some ''swim_class'' \<or> activity = Some ''aqua_fitness'' then
       (if modesty = Some ''medium'' then ''knee length'' else ''one-piece'')
     else if tummy then ''knee length''
     else ''knee length'')"

definition push_hints :: "bool \<Rightarrow> string option \<Rightarrow> string option \<Rightarrow> string \<Rightarrow> string list" where
  \<comment> \<open>the three conditional \<open>hints.push\<close> statements of \<open>fitCopy\<close>\<close>
  "push_hints t a m coverage =
    (let hints = [];
         hints = (if t then hints @ [''tummy-control panels''] else hints);
         hints = (if a = Some ''swim_class'' then hints @ [''secure shoulder coverage''] else hints);
         hints = (if m = Some ''high'' \<or> coverage = ''burkini'' then hints @ [''full coverage''] else hints)
     in hints)"

definition fitCopy_api :: "string \<Rightarrow> string \<Rightarrow> bool \<Rightarrow> string option \<Rightarrow> string option \<Rightarrow> string" where
  \<comment> \<open>api route; \<open>opts\<close> is passed as its three fields \<open>t\<close>, \<open>a\<close>, \<open>m\<close>\<close>
  "fitCopy_api sz coverage t a m =
    (let hints = push_hints t a m coverage;
         extra = (if length hints \<noteq> 0 then '' with '' @ join '' & '' hints else [])
     in ''We suggest **'' @ sz @ ''** in a **'' @ coverage @ ''** style'' @ extra
        @ ''. For close fit choose your measured size; for relaxed fit, consider one size up.'')"

subsection \<open>Request, response and analytics row\<close>

text \<open>
  The request body as the type \<open>BodyIn\<close> of the page route declares it. The handlers
  cast the parsed JSON to this type without a check; the values of the other JSON types
  that a request can carry in a numeric field are the subject of \<open>jsval\<close> and
  \<open>normalize_raw\<close> below.
\<close>

record BodyIn =
  product_handle :: "string option"
  product_title :: "string option"
  unit :: "string option"
  height :: "real option"
  weight :: "real option"
  bust :: "real option"
  waist :: "real option"
  hip :: "real option"
  bra :: "jstring option"
  activity :: "string option"
  modesty :: "string option"
  tummy_control :: "bool option"
  style_preference :: "string option"

definition fitCopy :: "string \<Rightarrow> string \<Rightarrow> BodyIn \<Rightarrow> string" where
  \<comment> \<open>page route; the closing sentence has a comma after \<open>fit\<close>\<close>
  "fitCopy sz coverage inputs =
    (let hints = push_hints (tummy_control inputs = Some True) (activity inputs) (modesty inputs)
                   coverage;
         bullet = (if length hints \<noteq> 0 then '' with '' @ join '' & '' hints else [])
     in ''We suggest **'' @ sz @ ''** in a **'' @ coverage @ ''** style'' @ bullet
        @ ''. For close fit, choose your measured size; for relaxed fit, consider one size up.'')"

record analytics_row =
  r_product_handle :: "string option"
  r_product_title :: "string option"
  r_height_cm :: "real option"
  r_weight_kg :: "real option"
  r_bust_cm :: "real option"
  r_waist_cm :: "real option"
  r_hip_cm :: "real option"
  r_bra_band :: "nat option"
  r_bra_cup :: "jstring option"
  r_unit_system :: string
  r_activity :: "string option"
  r_modesty :: "string option"
  r_tummy_control :: "bool option"
  r_style_preference :: "string option"
  recommended_size :: string
  recommended_style :: string
  fit_notes :: string

datatype js_error = JsError (err_name: string) (message: string)

definition error_text :: "js_error \<Rightarrow> string" where
  \<comment> \<open>\<open>String(e?.message || e)\<close> for an \<open>Error\<close> object\<close>
  "error_text e = (if message e \<noteq> [] then message e else err_name e)"

datatype request = Unparseable js_error | Json BodyIn
  \<comment> \<open>\<open>await req.json()\<close> throws (the exception is caught by the handler), or yields
      the body\<close>

datatype insert_outcome = Resolved "string option"
  \<comment> \<open>the awaited insert resolves to a result whose \<open>error\<close> field, set when the write
      failed, the handler never reads\<close>

datatype response = Ok_json string string string | Error_json string
  \<comment> \<open>\<open>{ok: true, size, coverage, fitNotes}\<close>, or \<open>{ok: false, error}\<close> with status 400\<close>

subsection \<open>Normalization (the first statements of the handlers)\<close>

record normalized =
  n_unit :: string
  height_cm :: "real option"
  weight_kg :: "real option"
  bust_cm :: "real option"
  waist_cm :: "real option"
  hip_cm :: "real option"
  bra_band :: "nat option"
  bra_cup :: "jstring option"
  bust_est :: "real option"

definition estimate_bust :: "real option \<Rightarrow> nat option \<Rightarrow> jstring option \<Rightarrow> real option" where
  \<comment> \<open>\<open>let bust_est = bust_cm; if (!bust_est && bra_band && bra_cup) {...}\<close>\<close>
  "estimate_bust b_cm band cup =
    (if \<not> truthy b_cm \<and> (band \<noteq> None \<and> band \<noteq> Some 0) \<and> truthy_str cup then
       let band_cm = fl (real (the band) * fl 2.54);
           cupAdd = fl ((case cupMap (the cup) of
                           None \<Rightarrow> 7.5
                         | Some x \<Rightarrow> if x = 0 then 7.5 else x) * fl 2.54)
       in Some (fl (band_cm + cupAdd))
     else b_cm)"

definition convert_round :: "string \<Rightarrow> (real \<Rightarrow> real) \<Rightarrow> real option \<Rightarrow> real option" where
  \<comment> \<open>\<open>x ? (unit === "imperial" ? Math.round(conv(x)) : Math.round(x)) : undefined\<close>\<close>
  "convert_round u conv x =
    (if truthy x then Some (if u = ''imperial'' then Math_round (conv (the x)) else Math_round (the x))
     else None)"

definition convert_len :: "string \<Rightarrow> real option \<Rightarrow> real option" where
  \<comment> \<open>\<open>x ? (unit === "imperial" ? inToCm(x) : x) : undefined\<close>\<close>
  "convert_len u x =
    (if truthy x then Some (if u = ''imperial'' then inToCm (the x) else the x) else None)"

definition normalize_with :: "(nat \<Rightarrow> jstring) \<Rightarrow> string \<Rightarrow> BodyIn \<Rightarrow> normalized" where
  "normalize_with up u body =
    (let (band, cup) = parseBra up (bra body);
         b = convert_len u (bust body)
     in \<lparr>n_unit = u,
         height_cm = convert_round u inToCm (height body),
         weight_kg = convert_round u lbToKg (weight body),
         bust_cm = b,
         waist_cm = convert_len u (waist body),
         hip_cm = convert_len u (hip body),
         bra_band = band,
         bra_cup = cup,
         bust_est = estimate_bust b band cup\<rparr>)"

definition normalize_page :: "(nat \<Rightarrow> jstring) \<Rightarrow> BodyIn \<Rightarrow> normalized" where
  \<comment> \<open>page route, lines 119 to 137: \<open>unit = body.unit || "metric"\<close>\<close>
  "normalize_page up body =
    normalize_with up (if truthy_str (unit body) then the (unit body) else ''metric'') body"

definition normalize_api :: "(nat \<Rightarrow> jstring) \<Rightarrow> BodyIn \<Rightarrow> normalized" where
  \<comment> \<open>api route, lines 259 to 274: \<open>unit = body.unit === "imperial" ? "imperial" : "metric"\<close>\<close>
  "normalize_api up body =
    normalize_with up (if unit body = Some ''imperial'' then ''imperial'' else ''metric'') body"

subsection \<open>Normalization of a field of any JSON type\<close>

datatype jsval = JUndefined | JNull | JBool bool | JNum real | JNaN | JStr jstring | JOther string
  \<comment> \<open>a value read from the parsed body, or computed from one; \<open>JOther\<close> is an array or
      an object, given by its JSON text\<close>

definition truthy_js :: "jsval \<Rightarrow> bool" where
  "truthy_js v =
    (case v of
       JUndefined \<Rightarrow> False | JNull \<Rightarrow> False | JBool b \<Rightarrow> b | JNum x \<Rightarrow> x \<noteq> 0
     | JNaN \<Rightarrow> False | JStr s \<Rightarrow> s \<noteq> [] | JOther t \<Rightarrow> True)"

definition to_number :: "(jsval \<Rightarrow> real option) \<Rightarrow> jsval \<Rightarrow> real option" where
  \<comment> \<open>the conversion to a number that the arithmetic operators apply, \<open>None\<close> for
      \<open>NaN\<close>; \<open>tn\<close> is the conversion of the language for strings, arrays and objects\<close>
  "to_number tn v =
    (case v of
       JUndefined \<Rightarrow> None | JNull \<Rightarrow> Some 0 | JBool b \<Rightarrow> Some (if b then 1 else 0)
     | JNum x \<Rightarrow> Some x | JNaN \<Rightarrow> None | JStr s \<Rightarrow> tn v | JOther t \<Rightarrow> tn v)"

definition apply_js :: "(jsval \<Rightarrow> real option) \<Rightarrow> (real \<Rightarrow> real) \<Rightarrow> jsval \<Rightarrow> jsval" where
  \<comment> \<open>a numeric function applied to any value: the value is converted first\<close>
  "apply_js tn f v = (case to_number tn v of None \<Rightarrow> JNaN | Some x \<Rightarrow> JNum (f x))"

record RawBody =
  raw_unit :: jsval
  raw_height :: jsval
  raw_weight :: jsval
  raw_bust :: jsval
  raw_waist :: jsval
  raw_hip :: jsval

record raw_normalized =
  raw_height_cm :: jsval
  raw_weight_kg :: jsval
  raw_bust_cm :: jsval
  raw_waist_cm :: jsval
  raw_hip_cm :: jsval

definition raw_round :: "(jsval \<Rightarrow> real option) \<Rightarrow> bool \<Rightarrow> (real \<Rightarrow> real) \<Rightarrow> jsval \<Rightarrow> jsval" where
  \<comment> \<open>\<open>x ? (unit === "imperial" ? Math.round(conv(x)) : Math.round(x)) : undefined\<close>\<close>
  "raw_round tn imperial conv x =
    (if truthy_js x then
       (if imperial then apply_js tn Math_round (apply_js tn conv x) else apply_js tn Math_round x)
     else JUndefined)"

definition raw_len :: "(jsval \<Rightarrow> real option) \<Rightarrow> bool \<Rightarrow> jsval \<Rightarrow> jsval" where
  \<comment> \<open>\<open>x ? (unit === "imperial" ? inToCm(x) : x) : undefined\<close>\<close>
  "raw_len tn imperial x =
    (if truthy_js x then (if imperial then apply_js tn inToCm x else x) else JUndefined)"

definition normalize_raw :: "(jsval \<Rightarrow> real option) \<Rightarrow> RawBody \<Rightarrow> raw_normalized" where
  \<comment> \<open>lines 119 to 125 of the page route and 259 to 266 of the api route; in both,
      \<open>unit === "imperial"\<close> holds exactly when \<open>body.unit\<close> is the string \<open>imperial\<close>\<close>
  "normalize_raw tn rb =
    (let imperial = (raw_unit rb = JStr (js ''imperial''))
     in \<lparr>raw_height_cm = raw_round tn imperial inToCm (raw_height rb),
         raw_weight_kg = raw_round tn imperial lbToKg (raw_weight rb),
         raw_bust_cm = raw_len tn imperial (raw_bust rb),
         raw_waist_cm = raw_len tn imperial (raw_waist rb),
         raw_hip_cm = raw_len tn imperial (raw_hip rb)\<rparr>)"

subsection \<open>The handlers\<close>

definition or_else :: "string option \<Rightarrow> string option \<Rightarrow> string \<Rightarrow> string" where
  \<comment> \<open>\<open>byChart || byHW || "M"\<close>\<close>
  "or_else byChart byHW d =
    (if truthy_str byChart then the byChart else if truthy_str byHW then the byHW else d)"

definition make_row :: "BodyIn \<Rightarrow> normalized \<Rightarrow> string \<Rightarrow> string \<Rightarrow> string \<Rightarrow> analytics_row" where
  \<comment> \<open>the object literal passed to \<open>insert\<close>\<close>
  "make_row body n sz coverage notes =
    \<lparr>r_product_handle = or_null (product_handle body),
     r_product_title = or_null (product_title body),
     r_height_cm = height_cm n,
     r_weight_kg = weight_kg n,
     r_bust_cm = bust_est n,
     r_waist_cm = waist_cm n,
     r_hip_cm = hip_cm n,
     r_bra_band = bra_band n,
     r_bra_cup = bra_cup n,
     r_unit_system = n_unit n,
     r_activity = activity body,
     r_modesty = modesty body,
     r_tummy_control = tummy_control body,
     r_style_preference = style_preference body,
     recommended_size = sz,
     recommended_style = coverage,
     fit_notes = notes\<rparr>"

definition POST :: "(nat \<Rightarrow> jstring) \<Rightarrow> request \<Rightarrow> insert_outcome
    \<Rightarrow> response \<times> analytics_row option" where
  \<comment> \<open>the exported handler of the page route: the response, and the row handed to the
      analytics insert (if any)\<close>
  "POST up req sink =
    (case req of
       Unparseable e \<Rightarrow> (Error_json (error_text e), None)
     | Json body \<Rightarrow>
         let n = normalize_page up body;
             byChart = pickFromChart (bust_est n) (waist_cm n) (hip_cm n);
             byHW = sizeByHW (height_cm n) (weight_kg n);
             sz = or_else byChart byHW ''M'';
             coverage = chooseCoverage (activity body) (modesty body)
                          (tummy_control body = Some True) (style_preference body);
             notes = fitCopy sz coverage body;
             row = make_row body n sz coverage notes
         in (case sink of Resolved _ \<Rightarrow> (Ok_json sz coverage notes, Some row)))"

definition POST_api :: "(nat \<Rightarrow> jstring) \<Rightarrow> bool \<Rightarrow> request \<Rightarrow> insert_outcome
    \<Rightarrow> response \<times> analytics_row option" where
  \<comment> \<open>the exported handler of the api route; \<open>env\<close> is the handler's test that both
      environment variables of the sink are set\<close>
  "POST_api up env req sink =
    (case req of
       Unparseable e \<Rightarrow> (Error_json (error_text e), None)
     | Json body \<Rightarrow>
         let n = normalize_api up body;
             byChart = pickFromChart_api (bust_est n) (waist_cm n) (hip_cm n);
             byHW = sizeByHW (height_cm n) (weight_kg n);
             sz = or_else byChart byHW ''M'';
             coverage = chooseCoverage (activity body) (modesty body)
                          (tummy_control body = Some True) (style_preference body);
             notes = fitCopy_api sz coverage (tummy_control body = Some True) (activity body)
                       (modesty body);
             row = make_row body n sz coverage notes
         in if env then (case sink of Resolved _ \<Rightarrow> (Ok_json sz coverage notes, Some row))
            else (Ok_json sz coverage notes, None))"

subsection \<open>The route modules\<close>

datatype served = Module_failed js_error | Handled response "analytics_row option"
  \<comment> \<open>the module threw while it was loaded, so that no handler exists; or the handler
      answered\<close>

definition route_page :: "(string option \<Rightarrow> string option \<Rightarrow> js_error option) \<Rightarrow> string option
    \<Rightarrow> string option \<Rightarrow> (nat \<Rightarrow> jstring) \<Rightarrow> request \<Rightarrow> insert_outcome \<Rightarrow> served" where
  \<comment> \<open>page route, lines 5 to 8 and the handler: the module calls
      \<open>createClient(process.env.NEXT_PUBLIC_SUPABASE_URL!, process.env.SUPABASE_SERVICE_ROLE!)\<close>
      at its top level; \<open>createClient url key = Some e\<close> says that the call throws \<open>e\<close>\<close>
  "route_page createClient url key up req sink =
    (case createClient url key of
       Some e \<Rightarrow> Module_failed e
     | None \<Rightarrow> (case POST up req sink of (resp, row) \<Rightarrow> Handled resp row))"

definition route_api :: "(string option \<Rightarrow> string option \<Rightarrow> js_error option) \<Rightarrow> string option
    \<Rightarrow> string option \<Rightarrow> (nat \<Rightarrow> jstring) \<Rightarrow> request \<Rightarrow> insert_outcome \<Rightarrow> served" where
  \<comment> \<open>api route, lines 158 to 161 and the handler, whose guard is
      \<open>process.env.NEXT_PUBLIC_SUPABASE_URL && process.env.SUPABASE_SERVICE_ROLE\<close>\<close>
  "route_api createClient url key up req sink =
    (case createClient url key of
       Some e \<Rightarrow> Module_failed e
     | None \<Rightarrow>
         (case POST_api up (truthy_str url \<and> truthy_str key) req sink of
            (resp, row) \<Rightarrow> Handled resp row))"

section \<open>The specification's wording\<close>

text \<open>
  The definitions of this section are written from the specification's sentences, to be
  compared with the definitions above, which are written from the source.
\<close>

type_synonym prefs = "string option \<times> string option \<times> bool \<times> string option"
  \<comment> \<open>activity, modesty, tummy-control flag, style preference\<close>

definition coverage_rules :: "((prefs \<Rightarrow> bool) \<times> string) list" where
  \<comment> \<open>the eight rules of the ordered cascade, as (predicate, result) pairs\<close>
  "coverage_rules =
    [(\<lambda>(a, m, t, p). p = Some ''burkini'', ''burkini''),
     (\<lambda>(a, m, t, p). p = Some ''swimdress'', ''knee length''),
     (\<lambda>(a, m, t, p). p = Some ''rashguard'', ''one-piece + rash guard''),
     (\<lambda>(a, m, t, p). m = Some ''high'', ''burkini''),
     (\<lambda>(a, m, t, p). a \<in> {Some ''swim_class'', Some ''aqua_fitness''} \<and> m = Some ''medium'',
        ''knee length''),
     (\<lambda>(a, m, t, p). a \<in> {Some ''swim_class'', Some ''aqua_fitness''}, ''one-piece''),
     (\<lambda>(a, m, t, p). t, ''knee length''),
     (\<lambda>(a, m, t, p). True, ''knee length'')]"

fun first_match :: "(('a \<Rightarrow> bool) \<times> 'b) list \<Rightarrow> 'a \<Rightarrow> 'b option" where
  "first_match [] x = None"
| "first_match ((p, r) # rules) x = (if p x then Some r else first_match rules x)"

definition spec_hints :: "bool \<Rightarrow> string option \<Rightarrow> string option \<Rightarrow> string \<Rightarrow> string list" where
  \<comment> \<open>the applicable hints, in the fixed order\<close>
  "spec_hints t a m coverage =
    map snd (filter fst
      [(t, ''tummy-control panels''),
       (a = Some ''swim_class'', ''secure shoulder coverage''),
       (m = Some ''high'' \<or> coverage = ''burkini'', ''full coverage'')])"

definition spec_clause :: "string list \<Rightarrow> string" where
  \<comment> \<open>the optional clause: omitted when no hint applies\<close>
  "spec_clause hints = (if hints = [] then [] else '' with '' @ join '' & '' hints)"

definition spec_template :: "string \<Rightarrow> string \<Rightarrow> string \<Rightarrow> string" where
  "spec_template sz coverage clause =
    ''We suggest **'' @ sz @ ''** in a **'' @ coverage @ ''** style'' @ clause
    @ ''. For close fit choose your measured size; for relaxed fit, consider one size up.''"

definition no_inputs :: BodyIn where
  \<comment> \<open>the request body \<open>{}\<close>\<close>
  "no_inputs = \<lparr>product_handle = None, product_title = None, unit = None, height = None,
     weight = None, bust = None, waist = None, hip = None, bra = None, activity = None,
     modesty = None, tummy_control = None, style_preference = None\<rparr>"

definition no_upper :: "nat \<Rightarrow> jstring" where
  \<comment> \<open>an uppercase mapping that leaves every code point beyond ASCII as it is; it stands
      for the mapping of Unicode where only ASCII strings are evaluated\<close>
  "no_upper c = [c]"

definition sharp_s_upper :: "nat \<Rightarrow> jstring" where
  \<comment> \<open>an uppercase mapping that sends U+00DF to \<open>SS\<close>, as Unicode does, and leaves the
      other code points beyond ASCII as they are\<close>
  "sharp_s_upper c = (if c = 223 then js ''SS'' else [c])"

definition raw_no_inputs :: RawBody where
  \<comment> \<open>the numeric fields and the unit of the request body \<open>{}\<close>\<close>
  "raw_no_inputs = \<lparr>raw_unit = JUndefined, raw_height = JUndefined, raw_weight = JUndefined,
     raw_bust = JUndefined, raw_waist = JUndefined, raw_hip = JUndefined\<rparr>"


definition createClient_checked :: "string option \<Rightarrow> string option \<Rightarrow> js_error option" where
  \<comment> \<open>a client constructor that checks its arguments as the one of the client library
      does: it throws when the URL is missing, then when the key is missing\<close>
  "createClient_checked url key =
    (if \<not> truthy_str url then Some (JsError ''Error'' ''supabaseUrl is required.'')
     else if \<not> truthy_str key then Some (JsError ''Error'' ''supabaseKey is required.'')
     else None)"

definition no_number :: "jsval \<Rightarrow> real option" where
  \<comment> \<open>a conversion to a number under which a string, an array or an object is \<open>NaN\<close>; it
      stands for the conversion of the language where no numeric string is evaluated\<close>
  "no_number v = None"

definition js_number :: "real option \<Rightarrow> jsval" where
  \<comment> \<open>an optional number of the declared type \<open>BodyIn\<close> as the value read from the body\<close>
  "js_number x = (case x of None \<Rightarrow> JUndefined | Some v \<Rightarrow> JNum v)"

definition raw_of :: "BodyIn \<Rightarrow> RawBody" where
  \<comment> \<open>the unit and the numeric fields of a body that has the declared type \<open>BodyIn\<close>\<close>
  "raw_of body =
    \<lparr>raw_unit = (case unit body of None \<Rightarrow> JUndefined | Some u \<Rightarrow> JStr (js u)),
     raw_height = js_number (height body), raw_weight = js_number (weight body),
     raw_bust = js_number (bust body), raw_waist = js_number (waist body),
     raw_hip = js_number (hip body)\<rparr>"

definition bmi_label :: "real \<Rightarrow> string" where
  \<comment> \<open>the fixed thresholds of the body-mass-index heuristic\<close>
  "bmi_label bmi =
    (if bmi < 21 then ''S'' else if bmi < 24 then ''M'' else if bmi < 27 then ''L''
     else if bmi < 31 then ''XL'' else ''XXL'')"

definition cup_increment :: "jstring \<Rightarrow> real" where
  \<comment> \<open>the cup table, in inches; an unrecognized cup takes the increment of C\<close>
  "cup_increment cup =
    (if cup = js ''A'' then 2.5 else if cup = js ''B'' then 5 else if cup = js ''C'' then 7.5
     else if cup = js ''D'' then 10 else if cup = js ''DD'' then 12.5
     else if cup = js ''E'' then 12.5 else if cup = js ''F'' then 15 else 7.5)"

definition spec_score :: "real option \<Rightarrow> real option \<Rightarrow> real option \<Rightarrow> SizeRow \<Rightarrow> nat" where
  \<comment> \<open>the count of present measurements that fall in the row's inclusive range\<close>
  "spec_score b w h s =
    length (filter (\<lambda>(v, r). case v of None \<Rightarrow> False | Some x \<Rightarrow> fst r \<le> x \<and> x \<le> snd r)
      [(b, bust_range s), (w, waist_range s), (h, hip_range s)])"

definition axis_distance :: "real option \<Rightarrow> Range \<Rightarrow> real" where
  \<comment> \<open>0 if absent, low - value if below, value - high if above, |value - midpoint| * 0.1
      if inside, each operation in double arithmetic\<close>
  "axis_distance v r =
    (case v of
       None \<Rightarrow> 0
     | Some x \<Rightarrow>
         if x < fst r then fl (fst r - x)
         else if snd r < x then fl (x - snd r)
         else fl (\<bar>fl (x - fl (fl (fst r + snd r) / 2))\<bar> * fl 0.1))"

definition spec_distance :: "real option \<Rightarrow> real option \<Rightarrow> real option \<Rightarrow> SizeRow \<Rightarrow> real" where
  \<comment> \<open>the sum over the three axes, added in double arithmetic in the order bust, waist,
      hip\<close>
  "spec_distance b w h s =
    fl (fl (axis_distance b (bust_range s) + axis_distance w (waist_range s))
        + axis_distance h (hip_range s))"

definition spec_winner :: "('a \<Rightarrow> nat) \<Rightarrow> ('a \<Rightarrow> real) \<Rightarrow> 'a list \<Rightarrow> 'a option" where
  \<comment> \<open>the earliest row of the table that has the highest score and, among the rows of
      that score, the lowest distance\<close>
  "spec_winner sc ds rows =
    find (\<lambda>s. \<forall>s' \<in> set rows. sc s' \<le> sc s \<and> (sc s' = sc s \<longrightarrow> ds s \<le> ds s')) rows"

definition spec_pick :: "real option \<Rightarrow> real option \<Rightarrow> real option \<Rightarrow> string option" where
  "spec_pick b w h =
    map_option label (spec_winner (spec_score b w h) (spec_distance b w h) SIZE_CHART)"

section \<open>Rounding to the nearest double\<close>

lemma pow2_powi: "pow2 e = 2 powi e"
  by (simp add: pow2_def power_int_def inverse_eq_divide power_one_over)

lemma pow2_pos [simp]: "0 < pow2 e"
  by (simp add: pow2_powi)

lemma pow2_add: "pow2 (a + b) = pow2 a * pow2 b"
  by (simp add: pow2_powi power_int_add)

lemma pow2_Suc: "pow2 (e + 1) = 2 * pow2 e"
  by (simp add: pow2_add) (simp add: pow2_def)

lemma pow2_shift: "pow2 (e + int n) = 2 ^ n * pow2 e"
proof -
  have "pow2 (int n) = 2 ^ n" by (simp add: pow2_def)
  then show ?thesis by (simp add: pow2_add)
qed

lemma pow2_pred: "pow2 (e - 1) = pow2 e / 2"
  using pow2_Suc [of "e - 1"] by simp

lemma pow2_mono: "a \<le> b \<Longrightarrow> pow2 a \<le> pow2 b"
  by (simp add: pow2_powi power_int_increasing)

lemma ilog2_bounds: "0 < x \<Longrightarrow> pow2 (ilog2 x) \<le> x \<and> x < pow2 (ilog2 x + 1)"
proof (induction x rule: ilog2.induct)
  case (1 x)
  show ?case
  proof (cases "2 \<le> x")
    case True
    with "1.prems" have e: "ilog2 x = ilog2 (x / 2) + 1"
      by (subst ilog2.simps) simp
    from "1.IH"(1) True "1.prems"
    have "pow2 (ilog2 (x / 2)) \<le> x / 2 \<and> x / 2 < pow2 (ilog2 (x / 2) + 1)" by simp
    then show ?thesis
      unfolding e
      using pow2_Suc [of "ilog2 (x / 2)"] pow2_Suc [of "ilog2 (x / 2) + 1"] by linarith
  next
    case False
    show ?thesis
    proof (cases "x < 1")
      case True
      with False "1.prems" have e: "ilog2 x = ilog2 (x * 2) - 1"
        by (subst ilog2.simps) simp
      from "1.IH"(2) True False "1.prems"
      have "pow2 (ilog2 (x * 2)) \<le> x * 2 \<and> x * 2 < pow2 (ilog2 (x * 2) + 1)" by simp
      moreover have "ilog2 (x * 2) - 1 + 1 = ilog2 (x * 2)" by simp
      ultimately show ?thesis
        unfolding e
        using pow2_pred [of "ilog2 (x * 2)"] pow2_Suc [of "ilog2 (x * 2)"] by simp
    next
      case ge: False
      with False "1.prems" have "ilog2 x = 0"
        by (subst ilog2.simps) simp
      with ge False show ?thesis by (simp add: pow2_def)
    qed
  qed
qed

lemma ilog2_unique:
  assumes "pow2 k \<le> x" "x < pow2 (k + 1)"
  shows "ilog2 x = k"
proof -
  have pos: "0 < x" using assms(1) pow2_pos [of k] by linarith
  from ilog2_bounds [OF pos] have b: "pow2 (ilog2 x) \<le> x" "x < pow2 (ilog2 x + 1)" by simp_all
  have "\<not> ilog2 x < k"
  proof
    assume "ilog2 x < k"
    then have "pow2 (ilog2 x + 1) \<le> pow2 k" by (intro pow2_mono) simp
    with b(2) assms(1) show False by linarith
  qed
  moreover have "\<not> k < ilog2 x"
  proof
    assume "k < ilog2 x"
    then have "pow2 (k + 1) \<le> pow2 (ilog2 x)" by (intro pow2_mono) simp
    with b(1) assms(2) show False by linarith
  qed
  ultimately show ?thesis by linarith
qed

lemma rne_error: "\<bar>of_int (rne x) - x\<bar> \<le> 1 / 2"
  by (simp add: rne_def Let_def; linarith?)

lemma rne_of_int [simp]: "rne (of_int k) = k"
  by (simp add: rne_def)

lemma rne_mono_int: "of_int k \<le> x \<Longrightarrow> k \<le> rne x"
  by (simp add: rne_def Let_def le_floor_iff; linarith?)

lemma rne_le_int: "x \<le> of_int k \<Longrightarrow> rne x \<le> k"
  by (simp add: rne_def Let_def; linarith?)

text \<open>The relative error of one rounding is at most \<open>pow2 (- 53)\<close>.\<close>

lemma fl_error: "\<bar>fl x - x\<bar> \<le> pow2 (- 53) * \<bar>x\<bar>"
proof (cases "x = 0")
  case True
  then show ?thesis by (simp add: fl_def)
next
  case False
  define e where "e = ilog2 \<bar>x\<bar>"
  define q where "q = pow2 (e - 52)"
  have q: "0 < q" by (simp add: q_def)
  from False have "0 < \<bar>x\<bar>" by simp
  from ilog2_bounds [OF this] have lo: "pow2 e \<le> \<bar>x\<bar>" by (simp add: e_def)
  have flx: "fl x = of_int (rne (x / q)) * q"
    using False by (simp add: fl_def Let_def q_def e_def)
  have "of_int (rne (x / q)) * q - x = (of_int (rne (x / q)) - x / q) * q"
    using q by (simp add: field_simps)
  then have "\<bar>fl x - x\<bar> = \<bar>of_int (rne (x / q)) - x / q\<bar> * q"
    using q by (simp add: flx abs_mult)
  also have "\<dots> \<le> 1 / 2 * q"
    using rne_error [of "x / q"] q by (intro mult_right_mono) simp_all
  also have "1 / 2 * q = pow2 (- 53) * pow2 e"
  proof -
    have "pow2 (e - 52) = pow2 (- 53) * pow2 1 * pow2 e"
      using pow2_add [of "- 53 + 1" e] pow2_add [of "- 53" 1] by simp
    then show ?thesis by (simp add: q_def) (simp add: pow2_def)
  qed
  also have "\<dots> \<le> pow2 (- 53) * \<bar>x\<bar>"
    using lo less_imp_le [OF pow2_pos [of "- 53"]] by (intro mult_left_mono)
  finally show ?thesis .
qed

lemma fl_zero_iff [simp]: "fl x = 0 \<longleftrightarrow> x = 0"
proof
  assume z: "fl x = 0"
  show "x = 0"
  proof (rule ccontr)
    assume nz: "x \<noteq> 0"
    from fl_error [of x] z have "\<bar>x\<bar> \<le> pow2 (- 53) * \<bar>x\<bar>" by simp
    moreover have "pow2 (- 53) < 1" by (simp add: pow2_def)
    ultimately show False using nz
      by (smt (verit) mult_less_cancel_right2 zero_less_abs_iff)
  qed
qed (simp add: fl_def)

lemma fl_mantissa:
  assumes "x \<noteq> 0"
  defines "q \<equiv> pow2 (ilog2 \<bar>x\<bar> - 52)"
  shows "2 ^ 52 \<le> \<bar>rne (x / q)\<bar> \<and> \<bar>rne (x / q)\<bar> \<le> 2 ^ 53"
proof -
  let ?e = "ilog2 \<bar>x\<bar>"
  have q: "0 < q" by (simp add: q_def)
  from assms(1) have "0 < \<bar>x\<bar>" by simp
  from ilog2_bounds [OF this] have b: "pow2 ?e \<le> \<bar>x\<bar>" "\<bar>x\<bar> < pow2 (?e + 1)" by simp_all
  have e1: "pow2 ?e = 2 ^ 52 * q"
    using pow2_shift [of "?e - 52" 52] by (simp add: q_def)
  have e2: "pow2 (?e + 1) = 2 ^ 53 * q"
    using pow2_shift [of "?e - 52" 53] by (simp add: q_def add.commute)
  from b e1 e2 q have r: "2 ^ 52 \<le> \<bar>x\<bar> / q" "\<bar>x\<bar> / q \<le> 2 ^ 53"
    by (simp_all add: field_simps)
  show ?thesis
  proof (cases "0 < x")
    case True
    with r have a: "of_int (2 ^ 52) \<le> x / q" and b: "x / q \<le> of_int (2 ^ 53)" by simp_all
    have "2 ^ 52 \<le> rne (x / q)" by (rule rne_mono_int [OF a])
    moreover have "rne (x / q) \<le> 2 ^ 53" by (rule rne_le_int [OF b])
    ultimately show ?thesis by simp
  next
    case False
    with assms(1) have "x < 0" by simp
    with r q have a: "x / q \<le> of_int (- (2 ^ 52))" and b: "of_int (- (2 ^ 53)) \<le> x / q"
      by (simp_all add: abs_if field_simps)
    have "rne (x / q) \<le> - (2 ^ 52)" by (rule rne_le_int [OF a])
    moreover have "- (2 ^ 53) \<le> rne (x / q)" by (rule rne_mono_int [OF b])
    ultimately show ?thesis by simp
  qed
qed

text \<open>A double is rounded to itself.\<close>

lemma fl_idem [simp]: "fl (fl x) = fl x"
proof (cases "x = 0")
  case True
  then show ?thesis by (simp add: fl_def)
next
  case False
  define e where "e = ilog2 \<bar>x\<bar>"
  define q where "q = pow2 (e - 52)"
  define m where "m = rne (x / q)"
  have q: "0 < q" by (simp add: q_def)
  have flx: "fl x = of_int m * q"
    using False by (simp add: fl_def Let_def q_def e_def m_def)
  from fl_mantissa [OF False] have m: "2 ^ 52 \<le> \<bar>m\<bar>" "\<bar>m\<bar> \<le> 2 ^ 53"
    by (simp_all add: m_def q_def e_def)
  have e1: "pow2 e = 2 ^ 52 * q"
    using pow2_shift [of "e - 52" 52] by (simp add: q_def)
  have e2: "pow2 (e + 1) = 2 ^ 53 * q"
    using pow2_shift [of "e - 52" 53] by (simp add: q_def add.commute)
  have e3: "pow2 (e + 1 + 1) = 2 ^ 54 * q"
    using pow2_shift [of "e - 52" 54] by (simp add: q_def add.commute)
  have absy: "\<bar>of_int m * q\<bar> = of_int \<bar>m\<bar> * q"
    using q by (simp add: abs_mult)
  from m have nz: "of_int m * q \<noteq> 0" using q by auto
  from m(1) have "real_of_int (2 ^ 52) \<le> real_of_int \<bar>m\<bar>" by (simp only: of_int_le_iff)
  then have mlo: "2 ^ 52 \<le> real_of_int \<bar>m\<bar>" by simp
  show ?thesis
  proof (cases "\<bar>m\<bar> < 2 ^ 53")
    case True
    then have "real_of_int \<bar>m\<bar> < real_of_int (2 ^ 53)" by (simp only: of_int_less_iff)
    then have mhi: "real_of_int \<bar>m\<bar> < 2 ^ 53" by simp
    have "pow2 e \<le> \<bar>of_int m * q\<bar>"
      unfolding absy e1 using mlo q by (intro mult_right_mono) simp_all
    moreover have "\<bar>of_int m * q\<bar> < pow2 (e + 1)"
      unfolding absy e2 using mhi q by (intro mult_strict_right_mono) simp_all
    ultimately have "ilog2 \<bar>of_int m * q\<bar> = e" by (rule ilog2_unique)
    then have "fl (of_int m * q) = of_int (rne (of_int m * q / q)) * q"
      using nz by (simp add: fl_def Let_def q_def)
    then show ?thesis using q by (simp add: flx)
  next
    case False
    with m(2) have top: "\<bar>m\<bar> = 2 ^ 53" by simp
    have "pow2 (e + 1) \<le> \<bar>of_int m * q\<bar>"
      unfolding absy e2 top by simp
    moreover have "\<bar>of_int m * q\<bar> < pow2 (e + 1 + 1)"
      unfolding absy e3 top using q by simp
    ultimately have "ilog2 \<bar>of_int m * q\<bar> = e + 1" by (rule ilog2_unique)
    moreover have "pow2 (e + 1 - 52) = 2 * q"
      using pow2_Suc [of "e - 52"] by (simp add: q_def algebra_simps)
    ultimately have f: "fl (of_int m * q) = of_int (rne (of_int m * q / (2 * q))) * (2 * q)"
      using nz by (simp add: fl_def Let_def)
    from top have "even \<bar>m\<bar>" by simp
    then have "even m" by simp
    then obtain k where k: "m = 2 * k" by (auto elim: evenE)
    have "of_int m * q / (2 * q) = of_int k"
      using q by (simp add: k)
    with f show ?thesis by (simp add: flx k)
  qed
qed

lemma fl_nonneg: "0 \<le> x \<Longrightarrow> 0 \<le> fl x"
proof -
  assume x: "0 \<le> x"
  have "pow2 (- 53) \<le> 1"
    by (simp add: pow2_def)
  with x have "pow2 (- 53) * x \<le> 1 * x"
    by (rule mult_right_mono [rotated])
  with x have "pow2 (- 53) * \<bar>x\<bar> \<le> x"
    by simp
  with fl_error [of x] show ?thesis
    by linarith
qed

lemma fl_pos: "0 < x \<Longrightarrow> 0 < fl x"
  using fl_nonneg [of x] fl_zero_iff [of x] by (simp add: less_le)

lemmas fl_eval = fl_def ilog2.simps pow2_def rne_def Let_def

section \<open>Coverage cascade\<close>

text \<open>
  Claim C3, as amended. \<open>chooseCoverage\<close> is the ordered cascade of the eight rules with
  the first matching rule winning, and the explicit style preferences \<open>burkini\<close>,
  \<open>swimdress\<close> and \<open>rashguard\<close> override modesty and activity: for every activity,
  modesty and tummy-control value the preference \<open>burkini\<close> gives \<open>burkini\<close> (also with
  modesty \<open>low\<close> and activity \<open>beach\<close>), \<open>swimdress\<close> gives \<open>knee length\<close> and
  \<open>rashguard\<close> gives \<open>one-piece + rash guard\<close>. Any other preference matches no rule,
  and the coverage is the one decided without a preference.
\<close>

theorem chooseCoverage_cascade:
  "first_match coverage_rules (a, m, t, p) = Some (chooseCoverage a m t p)
   \<and> chooseCoverage a m t (Some ''burkini'') = ''burkini''
   \<and> chooseCoverage (Some ''beach'') (Some ''low'') t (Some ''burkini'') = ''burkini''
   \<and> chooseCoverage a m t (Some ''swimdress'') = ''knee length''
   \<and> chooseCoverage a m t (Some ''rashguard'') = ''one-piece + rash guard''
   \<and> (p \<notin> {Some ''burkini'', Some ''swimdress'', Some ''rashguard''} \<longrightarrow>
        chooseCoverage a m t p = chooseCoverage a m t None)"
  by (simp add: chooseCoverage_def coverage_rules_def)

theorem chooseCoverage_cascade_witness:
  "first_match coverage_rules (Some ''beach'', Some ''low'', False, Some ''burkini'') = Some ''burkini''
   \<and> chooseCoverage (Some ''swim_class'') (Some ''high'') True (Some ''swimdress'') = ''knee length''
   \<and> chooseCoverage (Some ''beach'') (Some ''high'') False (Some ''onepiece'')
       = chooseCoverage (Some ''beach'') (Some ''high'') False None"
  using chooseCoverage_cascade [of "Some ''beach''" "Some ''low''" False "Some ''burkini''"]
    chooseCoverage_cascade [of "Some ''swim_class''" "Some ''high''" True "Some ''swimdress''"]
    chooseCoverage_cascade [of "Some ''beach''" "Some ''high''" False "Some ''onepiece''"]
  by simp

text \<open>
  The claim as written lets every explicit style preference override modesty and
  activity. The preference \<open>onepiece\<close> has no rule: with it the coverage still follows
  modesty.
\<close>

theorem onepiece_preference_counterexample:
  "chooseCoverage (Some ''beach'') (Some ''high'') False (Some ''onepiece'') = ''burkini''
   \<and> chooseCoverage (Some ''beach'') (Some ''low'') False (Some ''onepiece'') = ''knee length''"
  by (simp add: chooseCoverage_def)

text \<open>
  Claim C10. The tummy-control flag never affects the coverage decision: for every
  activity, modesty and style preference \<open>chooseCoverage\<close> returns the same result with
  the flag set as with the flag clear. In both handlers, changing the flag of a request
  leaves the size and the coverage of the response as they were; only the advice text is
  recomputed with the new flag, and in the analytics row only the flag and the advice
  text change.
\<close>

theorem tummy_flag_only_in_text:
  "chooseCoverage a m True p = chooseCoverage a m False p
   \<and> (fst (POST up (Json body) (Resolved r)) = Ok_json sz cov notes \<longrightarrow>
        fst (POST up (Json (body\<lparr>tummy_control := t\<rparr>)) (Resolved r))
          = Ok_json sz cov (fitCopy sz cov (body\<lparr>tummy_control := t\<rparr>)))
   \<and> (snd (POST up (Json body) sink) = Some row \<longrightarrow>
        snd (POST up (Json (body\<lparr>tummy_control := t\<rparr>)) sink)
          = Some (row\<lparr>r_tummy_control := t,
                fit_notes := fitCopy (recommended_size row) (recommended_style row)
                               (body\<lparr>tummy_control := t\<rparr>)\<rparr>))
   \<and> (fst (POST_api up env (Json body) (Resolved r)) = Ok_json sz cov notes \<longrightarrow>
        fst (POST_api up env (Json (body\<lparr>tummy_control := t\<rparr>)) (Resolved r))
          = Ok_json sz cov (fitCopy_api sz cov (t = Some True) (activity body) (modesty body)))"
proof -
  have cov: "chooseCoverage a m t1 p = chooseCoverage a m t2 p" for a m t1 t2 p
    by (simp add: chooseCoverage_def)
  have n: "normalize_page up (body\<lparr>tummy_control := t\<rparr>) = normalize_page up body"
    by (simp add: normalize_page_def normalize_with_def)
  have na: "normalize_api up (body\<lparr>tummy_control := t\<rparr>) = normalize_api up body"
    by (simp add: normalize_api_def normalize_with_def)
  have c: "chooseCoverage (activity body) (modesty body) (t = Some True) (style_preference body)
         = chooseCoverage (activity body) (modesty body) (tummy_control body = Some True) (style_preference body)"
    by (rule cov)
  have row: "snd (POST up (Json body) sink) = Some row \<longrightarrow>
        snd (POST up (Json (body\<lparr>tummy_control := t\<rparr>)) sink)
          = Some (row\<lparr>r_tummy_control := t,
                fit_notes := fitCopy (recommended_size row) (recommended_style row)
                               (body\<lparr>tummy_control := t\<rparr>)\<rparr>)"
    by (cases sink) (auto simp: POST_def Let_def n c make_row_def)
  show ?thesis
    using cov [of a m True p False] row
    by (auto simp: POST_def POST_api_def Let_def n na c)
qed

theorem tummy_flag_only_in_text_witness:
  "chooseCoverage None None True None = ''knee length''
   \<and> fst (POST no_upper (Json (no_inputs\<lparr>tummy_control := Some True\<rparr>)) (Resolved None))
       = Ok_json ''M'' ''knee length''
          ''We suggest **M** in a **knee length** style with tummy-control panels. For close fit, choose your measured size; for relaxed fit, consider one size up.''"
proof -
  have h: "fst (POST no_upper (Json no_inputs) (Resolved None)) = Ok_json ''M'' ''knee length''
     ''We suggest **M** in a **knee length** style. For close fit, choose your measured size; for relaxed fit, consider one size up.''"
    by (simp add: POST_def no_inputs_def normalize_page_def normalize_with_def truthy_str_def
        truthy_def convert_round_def convert_len_def parseBra_def estimate_bust_def
        pickFromChart_def sizeByHW_def or_else_def chooseCoverage_def fitCopy_def push_hints_def
        Let_def)
  have c: "chooseCoverage None None False None = ''knee length''"
    by (simp add: chooseCoverage_def)
  from tummy_flag_only_in_text [where a = None and m = None and p = None and body = no_inputs
      and up = no_upper and r = None and sz = "''M''" and cov = "''knee length''" and t = "Some True"] h c
  show ?thesis
    by (simp add: fitCopy_def push_hints_def no_inputs_def)
qed


section \<open>Advice text\<close>

lemma push_hints_spec: "push_hints t a m c = spec_hints t a m c"
  by (simp add: push_hints_def spec_hints_def)

text \<open>
  Claim C7, as amended. In the api route \<open>fitCopy\<close> produces exactly the template
  \<open>We suggest **{size}** in a **{coverage}** style{clause}. For close fit choose your
  measured size; for relaxed fit, consider one size up.\<close>; in the page route the closing
  sentence reads \<open>For close fit, choose\<close>, with a comma, and the text is otherwise the
  same. The clause is \<open>with\<close> followed by the applicable hints joined by \<open>&\<close> in the
  fixed order tummy-control panels (iff tummy-control is requested), secure shoulder
  coverage (iff activity is \<open>swim_class\<close>), full coverage (iff modesty is \<open>high\<close> or the
  coverage is \<open>burkini\<close>), and is omitted when no hint applies. With all three conditions
  the clause holds the three phrases in that order.
\<close>

theorem fitCopy_template:
  "fitCopy_api sz coverage t a m = spec_template sz coverage (spec_clause (spec_hints t a m coverage))
   \<and> fitCopy sz coverage inputs =
       ''We suggest **'' @ sz @ ''** in a **'' @ coverage @ ''** style''
       @ spec_clause (spec_hints (tummy_control inputs = Some True) (activity inputs) (modesty inputs) coverage)
       @ ''. For close fit, choose your measured size; for relaxed fit, consider one size up.''
   \<and> spec_clause (spec_hints True (Some ''swim_class'') (Some ''high'') coverage) =
       '' with tummy-control panels & secure shoulder coverage & full coverage''
   \<and> spec_clause (spec_hints False a None ''one-piece'') =
       (if a = Some ''swim_class'' then '' with secure shoulder coverage'' else [])"
  by (simp add: fitCopy_api_def fitCopy_def push_hints_spec spec_template_def spec_clause_def)
    (simp add: spec_hints_def)

theorem fitCopy_template_witness:
  "fitCopy_api ''L'' ''burkini'' True (Some ''swim_class'') (Some ''high'') =
     ''We suggest **L** in a **burkini** style with tummy-control panels & secure shoulder coverage & full coverage. For close fit choose your measured size; for relaxed fit, consider one size up.''"
  using fitCopy_template [of "''L''" "''burkini''" True "Some ''swim_class''" "Some ''high''"]
  by (simp add: spec_template_def spec_clause_def spec_hints_def)

text \<open>
  The claim as written, with one template for every \<open>fitCopy\<close>, fails on the page
  route, whose text has the comma.
\<close>

theorem fitCopy_comma_counterexample:
  "fitCopy ''M'' ''knee length'' no_inputs
     \<noteq> spec_template ''M'' ''knee length'' (spec_clause (spec_hints False None None ''knee length''))"
  by (simp add: fitCopy_def no_inputs_def push_hints_def spec_template_def spec_clause_def spec_hints_def)


section \<open>Normalization of a typed request\<close>

lemma convert_len_None: "convert_len u x = None \<longleftrightarrow> x = None \<or> x = Some 0"
  by (cases x) (simp_all add: convert_len_def truthy_def)

lemma convert_round_None: "convert_round u conv x = None \<longleftrightarrow> x = None \<or> x = Some 0"
  by (cases x) (simp_all add: convert_round_def truthy_def)

lemma normalize_with_fields:
  "height_cm (normalize_with up u body) = convert_round u inToCm (height body)"
  "weight_kg (normalize_with up u body) = convert_round u lbToKg (weight body)"
  "bust_cm (normalize_with up u body) = convert_len u (bust body)"
  "waist_cm (normalize_with up u body) = convert_len u (waist body)"
  "hip_cm (normalize_with up u body) = convert_len u (hip body)"
  "n_unit (normalize_with up u body) = u"
  "bra_band (normalize_with up u body) = fst (parseBra up (bra body))"
  "bra_cup (normalize_with up u body) = snd (parseBra up (bra body))"
  "bust_est (normalize_with up u body) =
     estimate_bust (convert_len u (bust body)) (fst (parseBra up (bra body))) (snd (parseBra up (bra body)))"
  by (simp_all add: normalize_with_def Let_def split: prod.splits)


lemma cupMap_positive: "cupMap c = Some x \<Longrightarrow> 0 < x"
  by (auto simp: cupMap_def split: if_splits)

lemma convert_len_truthy: "convert_len u x = Some v \<Longrightarrow> v \<noteq> 0"
  by (auto simp: convert_len_def truthy_def inToCm_def split: if_splits option.splits)

lemma estimate_bust_truthy:
  assumes "estimate_bust (convert_len u x) band cup = Some v"
  shows "v \<noteq> 0"
proof (cases "\<not> truthy (convert_len u x) \<and> (band \<noteq> None \<and> band \<noteq> Some 0) \<and> truthy_str cup")
  case True
  let ?inc = "case cupMap (the cup) of None \<Rightarrow> 7.5 | Some x \<Rightarrow> if x = 0 then 7.5 else x"
  have "0 < ?inc"
    using cupMap_positive [of "the cup"] by (auto split: option.splits)
  then have "0 < fl (?inc * fl 2.54)"
    by (simp add: fl_pos)
  moreover have "0 \<le> fl (real (the band) * fl 2.54)"
    by (simp add: fl_nonneg fl_pos less_imp_le)
  ultimately have "0 < fl (real (the band) * fl 2.54) + fl (?inc * fl 2.54)"
    by (rule add_nonneg_pos [rotated])
  then have "fl (fl (real (the band) * fl 2.54) + fl (?inc * fl 2.54)) \<noteq> 0"
    by simp
  with True assms show ?thesis
    by (auto simp: estimate_bust_def Let_def)
next
  case False
  with assms have "convert_len u x = Some v"
    by (auto simp: estimate_bust_def split: if_splits)
  then show ?thesis by (rule convert_len_truthy)
qed

lemma normalized_truthy:
  "bust_est (normalize_page up body) = Some v \<Longrightarrow> v \<noteq> 0"
  "waist_cm (normalize_page up body) = Some v \<Longrightarrow> v \<noteq> 0"
  "hip_cm (normalize_page up body) = Some v \<Longrightarrow> v \<noteq> 0"
  by (auto simp: normalize_page_def normalize_with_fields
      dest: estimate_bust_truthy convert_len_truthy)

section \<open>Chart lookup\<close>

lemma clampDist_axis: "clampDist v (fst r) (snd r) = axis_distance v r"
  by (simp add: clampDist_def axis_distance_def mid_def split: option.splits)

lemma fl_axis_distance [simp]: "fl (axis_distance v r) = axis_distance v r"
  by (simp add: axis_distance_def split: option.splits)

lemma score_row: "row_score b w h s = spec_score b w h s"
  by (simp add: row_score_def spec_score_def in_range_def split: option.splits)

lemma row_cand_spec:
  "score (row_cand b w h s) = spec_score b w h s"
  "dist_c (row_cand b w h s) = spec_distance b w h s"
  "c_label (row_cand b w h s) = label s"
  by (simp_all add: row_cand_def score_row clampDist_axis spec_distance_def)


lemma scan_snoc: "scan mk best (rows @ [s]) = update_best (scan mk best rows) (mk s)"
  by (induction rows arbitrary: best) simp_all

text \<open>After a non-empty prefix of the table, the loop holds the candidate of a row that no
  row of the prefix outranks and that outranks every row before it.\<close>

lemma scan_invariant:
  assumes mk: "\<And>s. score (mk s) = sc s \<and> dist_c (mk s) = ds s"
    and "rows \<noteq> []"
  shows "\<exists>i<length rows. scan mk None rows = Some (mk (rows ! i))
           \<and> (\<forall>j<length rows. sc (rows ! j) \<le> sc (rows ! i)
                  \<and> (sc (rows ! j) = sc (rows ! i) \<longrightarrow> ds (rows ! i) \<le> ds (rows ! j)))
           \<and> (\<forall>j<i. sc (rows ! j) < sc (rows ! i)
                  \<or> (sc (rows ! j) = sc (rows ! i) \<and> ds (rows ! i) < ds (rows ! j)))"
  using assms(2)
proof (induction rows rule: rev_induct)
  case Nil
  then show ?case by simp
next
  case (snoc s rows)
  show ?case
  proof (cases "rows = []")
    case True
    then show ?thesis
      by (simp add: update_best_def)
  next
    case False
    from snoc.IH [OF False] obtain i where i: "i < length rows"
      and best: "scan mk None rows = Some (mk (rows ! i))"
      and top: "\<forall>j<length rows. sc (rows ! j) \<le> sc (rows ! i)
                  \<and> (sc (rows ! j) = sc (rows ! i) \<longrightarrow> ds (rows ! i) \<le> ds (rows ! j))"
      and first: "\<forall>j<i. sc (rows ! j) < sc (rows ! i)
                  \<or> (sc (rows ! j) = sc (rows ! i) \<and> ds (rows ! i) < ds (rows ! j))"
      by blast
    let ?n = "length rows"
    show ?thesis
    proof (cases "sc s > sc (rows ! i) \<or> (sc s = sc (rows ! i) \<and> ds s < ds (rows ! i))")
      case True
      then have upd: "scan mk None (rows @ [s]) = Some (mk s)"
        by (simp add: scan_snoc best update_best_def mk)
      have a: "\<forall>j<length (rows @ [s]). sc ((rows @ [s]) ! j) \<le> sc s
                 \<and> (sc ((rows @ [s]) ! j) = sc s \<longrightarrow> ds s \<le> ds ((rows @ [s]) ! j))"
      proof (intro allI impI)
        fix j assume "j < length (rows @ [s])"
        then consider "j < ?n" | "j = ?n" by fastforce
        then show "sc ((rows @ [s]) ! j) \<le> sc s
                 \<and> (sc ((rows @ [s]) ! j) = sc s \<longrightarrow> ds s \<le> ds ((rows @ [s]) ! j))"
        proof cases
          case 1
          with top True show ?thesis by (fastforce simp: nth_append)
        next
          case 2
          then show ?thesis by simp
        qed
      qed
      have c: "\<forall>j<?n. sc ((rows @ [s]) ! j) < sc s
                  \<or> (sc ((rows @ [s]) ! j) = sc s \<and> ds s < ds ((rows @ [s]) ! j))"
      proof (intro allI impI)
        fix j assume j: "j < ?n"
        with top have "sc (rows ! j) \<le> sc (rows ! i)
          \<and> (sc (rows ! j) = sc (rows ! i) \<longrightarrow> ds (rows ! i) \<le> ds (rows ! j))" by blast
        with True j show "sc ((rows @ [s]) ! j) < sc s
                  \<or> (sc ((rows @ [s]) ! j) = sc s \<and> ds s < ds ((rows @ [s]) ! j))"
          by (fastforce simp: nth_append)
      qed
      show ?thesis
        by (rule exI [of _ ?n]) (use upd a c in simp)
    next
      case keep: False
      then have upd: "scan mk None (rows @ [s]) = Some (mk (rows ! i))"
        by (auto simp: scan_snoc best update_best_def mk)
      have a: "\<forall>j<length (rows @ [s]). sc ((rows @ [s]) ! j) \<le> sc (rows ! i)
                 \<and> (sc ((rows @ [s]) ! j) = sc (rows ! i) \<longrightarrow> ds (rows ! i) \<le> ds ((rows @ [s]) ! j))"
      proof (intro allI impI)
        fix j assume "j < length (rows @ [s])"
        then consider "j < ?n" | "j = ?n" by fastforce
        then show "sc ((rows @ [s]) ! j) \<le> sc (rows ! i)
                 \<and> (sc ((rows @ [s]) ! j) = sc (rows ! i) \<longrightarrow> ds (rows ! i) \<le> ds ((rows @ [s]) ! j))"
        proof cases
          case 1
          with top show ?thesis by (simp add: nth_append)
        next
          case 2
          with keep show ?thesis by (fastforce simp: nth_append)
        qed
      qed
      have c: "\<forall>j<i. sc ((rows @ [s]) ! j) < sc (rows ! i)
                  \<or> (sc ((rows @ [s]) ! j) = sc (rows ! i) \<and> ds (rows ! i) < ds ((rows @ [s]) ! j))"
        using first i by (simp add: nth_append)
      show ?thesis
        by (rule exI [of _ i]) (use upd a c i in \<open>simp add: nth_append\<close>)
    qed
  qed
qed


lemma label_nonempty: "s \<in> set SIZE_CHART \<Longrightarrow> label s \<noteq> []"
  by (auto simp: SIZE_CHART_def)






lemmas chart_eval = pickFromChart_def pickFromChart_api_def truthy_def SIZE_CHART_def
  row_cand_def row_cand_api_def row_score_def in_range_def clampDist_def mid_def
  update_best_def label_or_null_def



lemmas spec_pick_eval = spec_pick_def spec_winner_def spec_score_def spec_distance_def
  axis_distance_def SIZE_CHART_def


section \<open>Size fallback chain\<close>

lemma sizeByHW_bmi:
  "hc \<noteq> 0 \<Longrightarrow> wk \<noteq> 0 \<Longrightarrow> sizeByHW (Some hc) (Some wk) = Some (bmi_label (wk / (hc / 100) ^ 2))"
  by (simp add: sizeByHW_def truthy_def bmi_label_def Let_def)

lemma sizeByHW_None:
  "sizeByHW hc wk = None \<longleftrightarrow> hc = None \<or> hc = Some 0 \<or> wk = None \<or> wk = Some 0"
  by (auto simp: sizeByHW_def truthy_def Let_def split: option.splits)

lemma bmi_label_nonempty: "bmi_label x \<noteq> []"
  by (simp add: bmi_label_def)

lemma pickFromChart_nonempty: "pickFromChart b w h = Some l \<Longrightarrow> l \<noteq> []"
  by (auto simp: pickFromChart_def label_or_null_def split: if_splits option.splits)

lemma POST_resolved:
  "fst (POST up (Json body) (Resolved r)) =
     (let n = normalize_page up body;
          sz = or_else (pickFromChart (bust_est n) (waist_cm n) (hip_cm n))
                 (sizeByHW (height_cm n) (weight_kg n)) ''M'';
          coverage = chooseCoverage (activity body) (modesty body)
                       (tummy_control body = Some True) (style_preference body)
      in Ok_json sz coverage (fitCopy sz coverage body))"
  by (simp add: POST_def Let_def)

lemma or_else_cases:
  "l \<noteq> [] \<Longrightarrow> or_else (Some l) y d = l"
  "or_else None None d = d"
  "l \<noteq> [] \<Longrightarrow> or_else None (Some l) d = l"
  by (simp_all add: or_else_def truthy_str_def)

lemma no_inputs_normalized:
  "bust_est (normalize_page up no_inputs) = None"
  "waist_cm (normalize_page up no_inputs) = None"
  "hip_cm (normalize_page up no_inputs) = None"
  "height_cm (normalize_page up no_inputs) = None"
  "weight_kg (normalize_page up no_inputs) = None"
  by (simp_all add: normalize_page_def normalize_with_fields no_inputs_def convert_len_def
      convert_round_def truthy_def truthy_str_def parseBra_def estimate_bust_def)

lemma pick_nothing: "pickFromChart None None None = None"
  by (simp add: pickFromChart_def truthy_def)

text \<open>
  Claim C2, as amended. The returned size equals the chart lookup result when it is
  non-null; otherwise, when the normalized height (cm) and weight (kg) are both present
  and nonzero, it equals the label of the heuristic with
  bmi = weight / (height / 100) squared, mapped as bmi < 21 to S, bmi < 24 to M, bmi < 27 to L,
  bmi < 31 to XL, else XXL; and when the chart gives null and height or weight is absent
  or zero the size is exactly M. With no measurements but height 165 and weight 60 the
  size is M, and with no inputs at all the size is M.
\<close>

theorem size_fallback_chain:
  fixes body :: BodyIn and up :: "nat \<Rightarrow> jstring"
  defines "n \<equiv> normalize_page up body"
  defines "chart \<equiv> pickFromChart (bust_est n) (waist_cm n) (hip_cm n)"
  shows
  "(chart = Some l \<longrightarrow> (\<exists>cov notes. fst (POST up (Json body) (Resolved r)) = Ok_json l cov notes))
   \<and> (chart = None \<and> height_cm n = Some hc \<and> weight_kg n = Some wk \<and> hc \<noteq> 0 \<and> wk \<noteq> 0 \<longrightarrow>
        (\<exists>cov notes. fst (POST up (Json body) (Resolved r))
           = Ok_json (bmi_label (wk / (hc / 100) ^ 2)) cov notes))
   \<and> (chart = None \<and> (height_cm n \<in> {None, Some 0} \<or> weight_kg n \<in> {None, Some 0}) \<longrightarrow>
        (\<exists>cov notes. fst (POST up (Json body) (Resolved r)) = Ok_json ''M'' cov notes))
   \<and> (\<exists>cov notes. fst (POST up (Json (no_inputs\<lparr>height := Some 165, weight := Some 60\<rparr>)) (Resolved r))
          = Ok_json ''M'' cov notes)
   \<and> (\<exists>cov notes. fst (POST up (Json no_inputs) (Resolved r)) = Ok_json ''M'' cov notes)"
proof (intro conjI impI)
  assume "chart = Some l"
  then show "\<exists>cov notes. fst (POST up (Json body) (Resolved r)) = Ok_json l cov notes"
    using pickFromChart_nonempty [of "bust_est n" "waist_cm n" "hip_cm n" l]
    by (simp add: POST_resolved Let_def or_else_cases chart_def n_def)
next
  assume "chart = None \<and> height_cm n = Some hc \<and> weight_kg n = Some wk \<and> hc \<noteq> 0 \<and> wk \<noteq> 0"
  then show "\<exists>cov notes. fst (POST up (Json body) (Resolved r))
           = Ok_json (bmi_label (wk / (hc / 100) ^ 2)) cov notes"
    by (simp add: POST_resolved Let_def or_else_cases chart_def n_def sizeByHW_bmi
        bmi_label_nonempty)
next
  assume a: "chart = None \<and> (height_cm n \<in> {None, Some 0} \<or> weight_kg n \<in> {None, Some 0})"
  then have "sizeByHW (height_cm n) (weight_kg n) = None"
    unfolding sizeByHW_None by auto
  with a show "\<exists>cov notes. fst (POST up (Json body) (Resolved r)) = Ok_json ''M'' cov notes"
    by (simp add: POST_resolved Let_def or_else_cases chart_def n_def)
next
  let ?b = "no_inputs\<lparr>height := Some 165, weight := Some 60\<rparr>"
  have h: "height_cm (normalize_page up ?b) = Some 165" "weight_kg (normalize_page up ?b) = Some 60"
    by (simp_all add: normalize_page_def normalize_with_fields convert_round_def truthy_def
        Math_round_def no_inputs_def truthy_str_def)
  have m: "bust_est (normalize_page up ?b) = None" "waist_cm (normalize_page up ?b) = None"
    "hip_cm (normalize_page up ?b) = None"
    by (simp_all add: normalize_page_def normalize_with_fields no_inputs_def convert_len_def
        truthy_def truthy_str_def parseBra_def estimate_bust_def)
  have "sizeByHW (Some 165) (Some 60) = Some ''M''"
    by (simp add: sizeByHW_def truthy_def Let_def power2_eq_square)
  then show "\<exists>cov notes. fst (POST up (Json ?b) (Resolved r)) = Ok_json ''M'' cov notes"
    by (simp add: POST_resolved Let_def h m pick_nothing or_else_cases)
next
  have "sizeByHW None None = None"
    by (simp add: sizeByHW_def truthy_def)
  then show "\<exists>cov notes. fst (POST up (Json no_inputs) (Resolved r)) = Ok_json ''M'' cov notes"
    by (simp add: POST_resolved Let_def no_inputs_normalized pick_nothing or_else_cases)
qed

theorem size_fallback_chain_witness:
  "(\<exists>cov notes. fst (POST no_upper (Json (no_inputs\<lparr>bust := Some 90, height := Some 150, weight := Some 90\<rparr>))
       (Resolved None)) = Ok_json ''M'' cov notes)
   \<and> (\<exists>cov notes. fst (POST no_upper (Json (no_inputs\<lparr>height := Some 150, weight := Some 90\<rparr>))
       (Resolved None)) = Ok_json ''XXL'' cov notes)
   \<and> (\<exists>cov notes. fst (POST no_upper (Json (no_inputs\<lparr>height := Some 150\<rparr>))
       (Resolved None)) = Ok_json ''M'' cov notes)"
proof -
  let ?b1 = "no_inputs\<lparr>bust := Some 90, height := Some 150, weight := Some 90\<rparr>"
  let ?b2 = "no_inputs\<lparr>height := Some 150, weight := Some 90\<rparr>"
  let ?b3 = "no_inputs\<lparr>height := Some 150\<rparr>"
  have n1: "bust_est (normalize_page no_upper ?b1) = Some 90" "waist_cm (normalize_page no_upper ?b1) = None"
    "hip_cm (normalize_page no_upper ?b1) = None"
    by (simp_all add: normalize_page_def normalize_with_fields no_inputs_def convert_len_def
        truthy_def truthy_str_def parseBra_def estimate_bust_def)
  have c1: "pickFromChart (Some 90) None None = Some ''M''"
    by (simp add: chart_eval fl_eval)
  have n2: "bust_est (normalize_page no_upper ?b2) = None" "waist_cm (normalize_page no_upper ?b2) = None"
    "hip_cm (normalize_page no_upper ?b2) = None" "height_cm (normalize_page no_upper ?b2) = Some 150"
    "weight_kg (normalize_page no_upper ?b2) = Some 90"
    by (simp_all add: normalize_page_def normalize_with_fields no_inputs_def convert_len_def
        convert_round_def Math_round_def truthy_def truthy_str_def parseBra_def estimate_bust_def)
  have n3: "bust_est (normalize_page no_upper ?b3) = None" "waist_cm (normalize_page no_upper ?b3) = None"
    "hip_cm (normalize_page no_upper ?b3) = None" "weight_kg (normalize_page no_upper ?b3) = None"
    by (simp_all add: normalize_page_def normalize_with_fields no_inputs_def convert_len_def
        convert_round_def Math_round_def truthy_def truthy_str_def parseBra_def estimate_bust_def)
  show ?thesis
    using size_fallback_chain [where body = ?b1 and up = no_upper and l = "''M''" and r = None
        and hc = 0 and wk = 0]
      size_fallback_chain [where body = ?b2 and up = no_upper and l = "[]" and r = None
        and hc = 150 and wk = 90]
      size_fallback_chain [where body = ?b3 and up = no_upper and l = "[]" and r = None
        and hc = 0 and wk = 0]
    by (simp add: n1 c1 n2 n3 pick_nothing bmi_label_def power2_eq_square)
qed

text \<open>
  The claim as written applies the heuristic whenever height and weight are present. A
  weight of 0.4 is rounded to the present value 0 kg, for which the thresholds give S; the
  heuristic tests truthiness, returns null, and the size is the default M.
\<close>

theorem zero_weight_counterexample:
  "height_cm (normalize_page no_upper (no_inputs\<lparr>height := Some 165, weight := Some 0.4\<rparr>)) = Some 165
   \<and> weight_kg (normalize_page no_upper (no_inputs\<lparr>height := Some 165, weight := Some 0.4\<rparr>)) = Some 0
   \<and> bmi_label (0 / (165 / 100) ^ 2) = ''S''
   \<and> fst (POST no_upper (Json (no_inputs\<lparr>height := Some 165, weight := Some 0.4\<rparr>)) (Resolved None))
       = Ok_json ''M'' ''knee length''
          ''We suggest **M** in a **knee length** style. For close fit, choose your measured size; for relaxed fit, consider one size up.''"
  by (simp add: POST_def Let_def normalize_page_def normalize_with_def no_inputs_def
      convert_len_def convert_round_def Math_round_def truthy_def truthy_str_def parseBra_def
      estimate_bust_def pickFromChart_def sizeByHW_def or_else_def chooseCoverage_def
      fitCopy_def push_hints_def bmi_label_def)

section \<open>Totality of the chart lookup\<close>

lemma chart_label_set: "s \<in> set SIZE_CHART \<Longrightarrow> label s \<in> {''S'', ''M'', ''L'', ''XL'', ''XXL''}"
  by (auto simp: SIZE_CHART_def)

lemma scan_chart_label:
  "\<exists>l \<in> {''S'', ''M'', ''L'', ''XL'', ''XXL''}.
     label_or_null (scan (row_cand b w h) None SIZE_CHART) = Some l"
proof -
  have ne: "SIZE_CHART \<noteq> []" by (simp add: SIZE_CHART_def)
  have mk: "score (row_cand b w h s) = spec_score b w h s
      \<and> dist_c (row_cand b w h s) = spec_distance b w h s" for s
    by (simp add: row_cand_spec)
  from scan_invariant [of "row_cand b w h" "spec_score b w h" "spec_distance b w h", OF mk ne]
  obtain i where i: "i < length SIZE_CHART"
    and best: "scan (row_cand b w h) None SIZE_CHART = Some (row_cand b w h (SIZE_CHART ! i))"
    by blast
  from i have mem: "SIZE_CHART ! i \<in> set SIZE_CHART" by simp
  have "label (SIZE_CHART ! i) \<noteq> []" by (rule label_nonempty [OF mem])
  then have "label_or_null (scan (row_cand b w h) None SIZE_CHART) = Some (label (SIZE_CHART ! i))"
    by (simp add: best label_or_null_def row_cand_spec)
  with chart_label_set [OF mem] show ?thesis by blast
qed

lemma normalize_page_height_weight:
  "bust_est (normalize_page up (body\<lparr>height := hh, weight := ww\<rparr>)) = bust_est (normalize_page up body)"
  "waist_cm (normalize_page up (body\<lparr>height := hh, weight := ww\<rparr>)) = waist_cm (normalize_page up body)"
  "hip_cm (normalize_page up (body\<lparr>height := hh, weight := ww\<rparr>)) = hip_cm (normalize_page up body)"
  by (simp_all add: normalize_page_def normalize_with_fields)

text \<open>
  Claim C9, as amended. Whenever at least one of bust, waist, hip is present and nonzero,
  \<open>pickFromChart\<close> returns a non-null label of the chart (also when the value lies inside
  no row's range: the nearest row by distance is chosen from the non-empty chart). The
  values the handler passes are never zero, so whenever the bust estimate, the waist or
  the hip is present after normalization the response does not depend on height and
  weight: the height and weight heuristic can influence the returned size only when all
  three are absent after normalization.
\<close>

theorem chart_total_on_nonzero:
  "(b \<notin> {None, Some 0} \<or> w \<notin> {None, Some 0} \<or> h \<notin> {None, Some 0} \<longrightarrow>
      (\<exists>l \<in> {''S'', ''M'', ''L'', ''XL'', ''XXL''}. pickFromChart b w h = Some l))
   \<and> (bust_est (normalize_page up body) \<noteq> None \<or> waist_cm (normalize_page up body) \<noteq> None
        \<or> hip_cm (normalize_page up body) \<noteq> None \<longrightarrow>
      fst (POST up (Json (body\<lparr>height := hh, weight := ww\<rparr>)) sink) = fst (POST up (Json body) sink))"
proof (intro conjI impI)
  assume "b \<notin> {None, Some 0} \<or> w \<notin> {None, Some 0} \<or> h \<notin> {None, Some 0}"
  then have "\<not> (\<not> truthy b \<and> \<not> truthy w \<and> \<not> truthy h)"
    by (auto simp: truthy_def split: option.splits)
  then have "pickFromChart b w h = label_or_null (scan (row_cand b w h) None SIZE_CHART)"
    by (auto simp: pickFromChart_def)
  with scan_chart_label [of b w h]
  show "\<exists>l \<in> {''S'', ''M'', ''L'', ''XL'', ''XXL''}. pickFromChart b w h = Some l"
    by simp
next
  let ?n = "normalize_page up body"
  let ?b' = "body\<lparr>height := hh, weight := ww\<rparr>"
  assume "bust_est ?n \<noteq> None \<or> waist_cm ?n \<noteq> None \<or> hip_cm ?n \<noteq> None"
  then have "\<not> (\<not> truthy (bust_est ?n) \<and> \<not> truthy (waist_cm ?n) \<and> \<not> truthy (hip_cm ?n))"
    using normalized_truthy [of up body] by (auto simp: truthy_def split: option.splits)
  then have "pickFromChart (bust_est ?n) (waist_cm ?n) (hip_cm ?n)
      = label_or_null (scan (row_cand (bust_est ?n) (waist_cm ?n) (hip_cm ?n)) None SIZE_CHART)"
    by (auto simp: pickFromChart_def)
  with scan_chart_label [of "bust_est ?n" "waist_cm ?n" "hip_cm ?n"]
  obtain l where l: "pickFromChart (bust_est ?n) (waist_cm ?n) (hip_cm ?n) = Some l" "l \<noteq> []"
    by auto
  have sz: "or_else (Some l) y ''M'' = l" for y
    using l(2) by (simp add: or_else_cases)
  have fc: "fitCopy s c ?b' = fitCopy s c body" for s c
    by (simp add: fitCopy_def)
  show "fst (POST up (Json ?b') sink) = fst (POST up (Json body) sink)"
    by (cases sink) (simp_all add: POST_def Let_def normalize_page_height_weight l sz fc)
qed

theorem chart_total_on_nonzero_witness:
  "(\<exists>l \<in> {''S'', ''M'', ''L'', ''XL'', ''XXL''}. pickFromChart (Some 300) None None = Some l)
   \<and> fst (POST no_upper (Json (no_inputs\<lparr>hip := Some 97, height := Some 150, weight := Some 90\<rparr>)) (Resolved None))
      = fst (POST no_upper (Json (no_inputs\<lparr>hip := Some 97\<rparr>)) (Resolved None))"
proof -
  have n: "hip_cm (normalize_page no_upper (no_inputs\<lparr>hip := Some 97\<rparr>)) = Some 97"
    by (simp add: normalize_page_def normalize_with_fields no_inputs_def convert_len_def
        truthy_def truthy_str_def)
  show ?thesis
    using chart_total_on_nonzero [where b = "Some 300" and w = None and h = None
        and body = "no_inputs\<lparr>hip := Some 97\<rparr>" and hh = "Some 150" and ww = "Some 90"
        and sink = "Resolved None" and up = no_upper] n
    by simp
qed

text \<open>
  The claim as written counts a measurement of 0 as present. The guard of the page route
  tests truthiness: with bust 0 and waist 0 the lookup returns null, and a request with
  bust 0 gets its size from height and weight.
\<close>

theorem chart_zero_counterexample:
  "pickFromChart (Some 0) (Some 0) None = None
   \<and> fst (POST no_upper (Json (no_inputs\<lparr>bust := Some 0, height := Some 150, weight := Some 90\<rparr>)) (Resolved None))
       = Ok_json ''XXL'' ''knee length''
          ''We suggest **XXL** in a **knee length** style. For close fit, choose your measured size; for relaxed fit, consider one size up.''"
  by (simp add: POST_def Let_def normalize_page_def normalize_with_def no_inputs_def
      convert_len_def convert_round_def Math_round_def truthy_def truthy_str_def parseBra_def
      estimate_bust_def pickFromChart_def sizeByHW_def or_else_def chooseCoverage_def
      fitCopy_def push_hints_def power2_eq_square)

section \<open>Bust estimate from the bra string\<close>

lemma cupMap_increment:
  "(case cupMap c of None \<Rightarrow> 7.5 | Some x \<Rightarrow> if x = 0 then 7.5 else x) = cup_increment c"
  by (simp add: cupMap_def cup_increment_def)

lemma match_bra_Some:
  "is_digit d1 \<Longrightarrow> is_digit d2 \<Longrightarrow> cup \<noteq> [] \<Longrightarrow> list_all is_upper cup
    \<Longrightarrow> match_bra (d1 # d2 # cup) = Some ([d1, d2], cup)"
  by (simp add: match_bra_def)

lemma match_bra_None:
  "\<nexists>d1 d2 cup. t = d1 # d2 # cup \<and> is_digit d1 \<and> is_digit d2 \<and> cup \<noteq> [] \<and> list_all is_upper cup
    \<Longrightarrow> match_bra t = None"
  by (auto simp: match_bra_def split: list.splits)

lemma parseBra_match:
  assumes "toUpperCase up (strip_spaces s) = d1 # d2 # cup"
    and "is_digit d1" "is_digit d2" "cup \<noteq> []" "list_all is_upper cup"
  shows "parseBra up (Some s) = (Some (10 * digit_val d1 + digit_val d2), Some cup)"
proof -
  from assms(1) have "s \<noteq> []"
    by (auto simp: toUpperCase_def strip_spaces_def)
  with assms show ?thesis
    by (simp add: parseBra_def truthy_str_def match_bra_Some parseInt10_def)
qed

lemma parseBra_no_match:
  assumes "bra_s = None \<or> (\<exists>s. bra_s = Some s \<and>
    (\<nexists>d1 d2 cup. toUpperCase up (strip_spaces s) = d1 # d2 # cup \<and> is_digit d1 \<and> is_digit d2
        \<and> cup \<noteq> [] \<and> list_all is_upper cup))"
  shows "parseBra up bra_s = (None, None)"
  using assms match_bra_None
  by (auto simp: parseBra_def truthy_str_def split: option.splits)

lemma estimate_bust_none: "estimate_bust b None None = b"
  by (simp add: estimate_bust_def)

lemmas bra_eval = parseBra_def truthy_str_def strip_spaces_def is_space_def toUpperCase_def
  match_bra_def is_digit_def is_upper_def parseInt10_def digit_val_def js_def

lemma bra_36C: "parseBra up (Some (js ''36C'')) = (Some 36, Some (js ''C''))"
  by (simp add: bra_eval)

lemma bra_36_nbsp_C: "parseBra up (Some [51, 54, 160, 67]) = (Some 36, Some (js ''C''))"
  by (simp add: bra_eval)

lemma bra_36_sharp_s: "up 223 = js ''SS'' \<Longrightarrow> parseBra up (Some [51, 54, 223]) = (Some 36, Some (js ''SS''))"
  by (simp add: bra_eval)

lemma estimate_36:
  "estimate_bust None (Some 36) (Some (js ''C'')) = Some (fl 110.49)"
  "estimate_bust None (Some 36) (Some (js ''SS'')) = Some (fl 110.49)"
  by (simp_all add: estimate_bust_def truthy_def truthy_str_def cupMap_def js_def fl_eval)

lemma no_inputs_bra:
  "bust_cm (normalize_page up (no_inputs\<lparr>bra := x\<rparr>)) = None"
  "waist_cm (normalize_page up (no_inputs\<lparr>bra := x\<rparr>)) = None"
  "hip_cm (normalize_page up (no_inputs\<lparr>bra := x\<rparr>)) = None"
  "bra_band (normalize_page up (no_inputs\<lparr>bra := x\<rparr>)) = fst (parseBra up x)"
  "bra_cup (normalize_page up (no_inputs\<lparr>bra := x\<rparr>)) = snd (parseBra up x)"
  "bust_est (normalize_page up (no_inputs\<lparr>bra := x\<rparr>))
     = estimate_bust None (fst (parseBra up x)) (snd (parseBra up x))"
  by (simp_all add: normalize_page_def normalize_with_fields no_inputs_def convert_len_def
      truthy_def)

text \<open>
  Claim C6, as amended. When no bust measurement is otherwise derived (the bust field is
  missing or zero) and the bra string, after stripping whitespace and uppercasing, is two
  digits followed by one or more letters, and the band is not 00, the estimated bust is
  band * 2.54 + cupIncrement * 2.54 in double arithmetic, where cupIncrement is A = 2.5,
  B = 5, C = 7.5, D = 10, DD = 12.5, E = 12.5, F = 15 and 7.5 for any other cup. The string
  \<open>36C\<close> with no explicit bust gives band 36, cup C and as the estimate the double
  nearest to 36 * 2.54 + 7.5 * 2.54 = 110.49, which is the value the chart lookup
  classifies (as XXL); so does \<open>36 C\<close> written with a
  no-break space, and \<open>36\<close> followed by U+00DF, whose uppercase is \<open>SS\<close>, gives band 36 and
  the cup \<open>SS\<close> with the default increment. A bra string that does not match the pattern
  yields no band and no cup and leaves the bust as it was.
\<close>

theorem bra_bust_estimate:
  fixes body :: BodyIn and up :: "nat \<Rightarrow> jstring"
  defines "n \<equiv> normalize_page up body"
  shows
  "(bust body \<in> {None, Some 0} \<and> bra body = Some s \<and> toUpperCase up (strip_spaces s) = d1 # d2 # cup
      \<and> is_digit d1 \<and> is_digit d2 \<and> cup \<noteq> [] \<and> list_all is_upper cup
      \<and> 10 * digit_val d1 + digit_val d2 \<noteq> 0 \<longrightarrow>
      bra_band n = Some (10 * digit_val d1 + digit_val d2) \<and> bra_cup n = Some cup
      \<and> bust_est n = Some (fl (fl (real (10 * digit_val d1 + digit_val d2) * fl 2.54)
                                + fl (cup_increment cup * fl 2.54))))
   \<and> (bra body = None \<or> (\<exists>s. bra body = Some s \<and>
        (\<nexists>d1 d2 cup. toUpperCase up (strip_spaces s) = d1 # d2 # cup \<and> is_digit d1 \<and> is_digit d2
           \<and> cup \<noteq> [] \<and> list_all is_upper cup)) \<longrightarrow>
      bra_band n = None \<and> bra_cup n = None \<and> bust_est n = bust_cm n)
   \<and> bra_band (normalize_page up (no_inputs\<lparr>bra := Some (js ''36C'')\<rparr>)) = Some 36
   \<and> bra_cup (normalize_page up (no_inputs\<lparr>bra := Some (js ''36C'')\<rparr>)) = Some (js ''C'')
   \<and> bust_est (normalize_page up (no_inputs\<lparr>bra := Some (js ''36C'')\<rparr>)) = Some (fl 110.49)
   \<and> (110.49 :: real) = 36 * 2.54 + 7.5 * 2.54
   \<and> \<bar>fl 110.49 - 110.49\<bar> \<le> 1 / 10 ^ 13
   \<and> pickFromChart (bust_est (normalize_page up (no_inputs\<lparr>bra := Some (js ''36C'')\<rparr>))) None None
       = Some ''XXL''
   \<and> (\<exists>cov notes. fst (POST up (Json (no_inputs\<lparr>bra := Some (js ''36C'')\<rparr>)) (Resolved r))
         = Ok_json ''XXL'' cov notes)
   \<and> bust_est (normalize_page up (no_inputs\<lparr>bra := Some [51, 54, 160, 67]\<rparr>)) = Some (fl 110.49)
   \<and> (up 223 = js ''SS'' \<longrightarrow>
        bra_cup (normalize_page up (no_inputs\<lparr>bra := Some [51, 54, 223]\<rparr>)) = Some (js ''SS'')
        \<and> bust_est (normalize_page up (no_inputs\<lparr>bra := Some [51, 54, 223]\<rparr>)) = Some (fl 110.49))"
proof (intro conjI impI)
  assume a: "bust body \<in> {None, Some 0} \<and> bra body = Some s
      \<and> toUpperCase up (strip_spaces s) = d1 # d2 # cup
      \<and> is_digit d1 \<and> is_digit d2 \<and> cup \<noteq> [] \<and> list_all is_upper cup
      \<and> 10 * digit_val d1 + digit_val d2 \<noteq> 0"
  then have p: "parseBra up (bra body) = (Some (10 * digit_val d1 + digit_val d2), Some cup)"
    by (simp add: parseBra_match)
  from a have b: "convert_len u (bust body) = None" for u
    by (simp add: convert_len_None)
  show "bra_band n = Some (10 * digit_val d1 + digit_val d2)" "bra_cup n = Some cup"
    by (simp_all add: n_def normalize_page_def normalize_with_fields p)
  from a have "10 * digit_val d1 + digit_val d2 \<noteq> 0" "cup \<noteq> []"
    by simp_all
  then show "bust_est n = Some (fl (fl (real (10 * digit_val d1 + digit_val d2) * fl 2.54)
                                + fl (cup_increment cup * fl 2.54)))"
    by (simp add: n_def normalize_page_def normalize_with_fields p b estimate_bust_def truthy_def
        truthy_str_def cupMap_increment)
next
  assume "bra body = None \<or> (\<exists>s. bra body = Some s \<and>
        (\<nexists>d1 d2 cup. toUpperCase up (strip_spaces s) = d1 # d2 # cup \<and> is_digit d1 \<and> is_digit d2
           \<and> cup \<noteq> [] \<and> list_all is_upper cup))"
  then have p: "parseBra up (bra body) = (None, None)"
    by (rule parseBra_no_match)
  then show "bra_band n = None" "bra_cup n = None" "bust_est n = bust_cm n"
    by (simp_all add: n_def normalize_page_def normalize_with_fields estimate_bust_none)
next
  let ?b = "no_inputs\<lparr>bra := Some (js ''36C'')\<rparr>"
  show band: "bra_band (normalize_page up ?b) = Some 36"
    and cup: "bra_cup (normalize_page up ?b) = Some (js ''C'')"
    by (simp_all add: no_inputs_bra bra_36C)
  show est: "bust_est (normalize_page up ?b) = Some (fl 110.49)"
    by (simp add: no_inputs_bra bra_36C estimate_36)
  show "(110.49 :: real) = 36 * 2.54 + 7.5 * 2.54" by simp
  show "\<bar>fl 110.49 - 110.49\<bar> \<le> 1 / 10 ^ 13"
    by (simp add: fl_eval)
  have c: "pickFromChart (Some (fl 110.49)) None None = Some ''XXL''"
    by (simp add: chart_eval fl_eval)
  then show pk: "pickFromChart (bust_est (normalize_page up ?b)) None None = Some ''XXL''"
    by (simp only: est)
  show "\<exists>cov notes. fst (POST up (Json ?b) (Resolved r)) = Ok_json ''XXL'' cov notes"
    by (simp add: POST_resolved Let_def no_inputs_bra(2,3) pk or_else_cases)
  show "bust_est (normalize_page up (no_inputs\<lparr>bra := Some [51, 54, 160, 67]\<rparr>)) = Some (fl 110.49)"
    by (simp add: no_inputs_bra bra_36_nbsp_C estimate_36)
next
  assume u: "up 223 = js ''SS''"
  show "bra_cup (normalize_page up (no_inputs\<lparr>bra := Some [51, 54, 223]\<rparr>)) = Some (js ''SS'')"
    by (simp add: no_inputs_bra bra_36_sharp_s u)
  show "bust_est (normalize_page up (no_inputs\<lparr>bra := Some [51, 54, 223]\<rparr>)) = Some (fl 110.49)"
    by (simp add: no_inputs_bra bra_36_sharp_s u estimate_36)
qed

theorem bra_bust_estimate_witness:
  "bra_band (normalize_page sharp_s_upper (no_inputs\<lparr>bra := Some (js '' 34 dd'')\<rparr>)) = Some 34
   \<and> bra_cup (normalize_page sharp_s_upper (no_inputs\<lparr>bra := Some (js '' 34 dd'')\<rparr>)) = Some (js ''DD'')
   \<and> bust_est (normalize_page sharp_s_upper (no_inputs\<lparr>bra := Some (js '' 34 dd'')\<rparr>)) = Some (fl 118.11)
   \<and> bust_est (normalize_page sharp_s_upper (no_inputs\<lparr>bra := Some (js ''C36''), bust := Some 92\<rparr>))
       = Some 92
   \<and> bra_cup (normalize_page sharp_s_upper (no_inputs\<lparr>bra := Some [51, 54, 223]\<rparr>)) = Some (js ''SS'')"
proof -
  have u: "toUpperCase sharp_s_upper (strip_spaces (js '' 34 dd'')) = 51 # 52 # js ''DD''"
    by (simp add: toUpperCase_def strip_spaces_def is_space_def js_def)
  have d: "is_digit 51" "is_digit 52" "list_all is_upper (js ''DD'')" "js ''DD'' \<noteq> []"
    "digit_val 51 = 3" "digit_val 52 = 4"
    by (simp_all add: is_digit_def is_upper_def digit_val_def js_def)
  have v: "toUpperCase sharp_s_upper (strip_spaces (js ''C36'')) = js ''C36''"
    by (simp add: toUpperCase_def strip_spaces_def is_space_def js_def)
  have v': "\<nexists>d1 d2 cup. js ''C36'' = d1 # d2 # cup \<and> is_digit d1 \<and> is_digit d2 \<and> cup \<noteq> []
      \<and> list_all is_upper cup"
    by (simp add: js_def is_digit_def)
  have b: "bust_cm (normalize_page sharp_s_upper (no_inputs\<lparr>bra := Some (js ''C36''), bust := Some 92\<rparr>))
      = Some 92"
    by (simp add: normalize_page_def normalize_with_fields no_inputs_def convert_len_def
        truthy_def truthy_str_def)
  have f: "bust (no_inputs\<lparr>bra := Some (js '' 34 dd'')\<rparr>) = None"
    by (simp add: no_inputs_def)
  have s: "sharp_s_upper 223 = js ''SS''"
    by (simp add: sharp_s_upper_def)
  have i: "fl (fl (real (10 * 3 + 4) * fl 2.54) + fl (cup_increment (js ''DD'') * fl 2.54))
      = fl 118.11"
    by (simp add: cup_increment_def js_def fl_eval)
  from bra_bust_estimate [where body = "no_inputs\<lparr>bra := Some (js '' 34 dd'')\<rparr>"
        and up = sharp_s_upper and s = "js '' 34 dd''" and ?d1.0 = 51 and ?d2.0 = 52
        and cup = "js ''DD''"] u d f s i
  have one: "bra_band (normalize_page sharp_s_upper (no_inputs\<lparr>bra := Some (js '' 34 dd'')\<rparr>)) = Some 34
      \<and> bra_cup (normalize_page sharp_s_upper (no_inputs\<lparr>bra := Some (js '' 34 dd'')\<rparr>)) = Some (js ''DD'')
      \<and> bust_est (normalize_page sharp_s_upper (no_inputs\<lparr>bra := Some (js '' 34 dd'')\<rparr>)) = Some (fl 118.11)
      \<and> bra_cup (normalize_page sharp_s_upper (no_inputs\<lparr>bra := Some [51, 54, 223]\<rparr>)) = Some (js ''SS'')"
    by simp
  from bra_bust_estimate [where body = "no_inputs\<lparr>bra := Some (js ''C36''), bust := Some 92\<rparr>"
        and up = sharp_s_upper] v v' b
  have two: "bust_est (normalize_page sharp_s_upper (no_inputs\<lparr>bra := Some (js ''C36''), bust := Some 92\<rparr>))
      = Some 92"
    by simp
  from one two show ?thesis by simp
qed

text \<open>
  The claim as written gives the estimate for \<open>36C\<close> as about 111.4; the handler
  computes the double nearest to 110.49, which is more than 0.9 less. The claim also promises an estimate for every
  string of the pattern; \<open>00C\<close> matches, its band 0 is falsy, and no estimate is made.
\<close>

theorem bra_estimate_counterexample:
  "bust_est (normalize_page no_upper (no_inputs\<lparr>bra := Some (js ''36C'')\<rparr>)) = Some (fl 110.49)
   \<and> (111.4 :: real) - fl 110.49 > 0.9
   \<and> match_bra (toUpperCase no_upper (strip_spaces (js ''00C''))) = Some (js ''00'', js ''C'')
   \<and> bust_est (normalize_page no_upper (no_inputs\<lparr>bra := Some (js ''00C'')\<rparr>)) = None"
  by (simp add: no_inputs_bra bra_eval estimate_bust_def truthy_def cupMap_def fl_eval)

section \<open>Normalization of the numeric fields\<close>

lemma inToCm_zero_iff [simp]: "inToCm x = 0 \<longleftrightarrow> x = 0"
  by (simp add: inToCm_def)

lemma lbToKg_zero_iff [simp]: "lbToKg x = 0 \<longleftrightarrow> x = 0"
  by (simp add: lbToKg_def)

lemma raw_len_absent: "x \<in> {JUndefined, JNull, JNum 0} \<Longrightarrow> raw_len tn imp x = JUndefined"
  by (auto simp: raw_len_def truthy_js_def)

lemma raw_round_absent:
  "x \<in> {JUndefined, JNull, JNum 0} \<Longrightarrow> raw_round tn imp conv x = JUndefined"
  by (auto simp: raw_round_def truthy_js_def)

lemma raw_len_number:
  "v \<noteq> 0 \<Longrightarrow> raw_len tn imp (JNum v) = JNum (if imp then inToCm v else v)"
  by (simp add: raw_len_def truthy_js_def apply_js_def to_number_def)

lemma raw_round_number:
  "v \<noteq> 0 \<Longrightarrow> raw_round tn imp conv (JNum v) = JNum (Math_round (if imp then conv v else v))"
  by (simp add: raw_round_def truthy_js_def apply_js_def to_number_def)

lemma normalize_raw_fields:
  "raw_height_cm (normalize_raw tn rb)
     = raw_round tn (raw_unit rb = JStr (js ''imperial'')) inToCm (raw_height rb)"
  "raw_weight_kg (normalize_raw tn rb)
     = raw_round tn (raw_unit rb = JStr (js ''imperial'')) lbToKg (raw_weight rb)"
  "raw_bust_cm (normalize_raw tn rb) = raw_len tn (raw_unit rb = JStr (js ''imperial'')) (raw_bust rb)"
  "raw_waist_cm (normalize_raw tn rb) = raw_len tn (raw_unit rb = JStr (js ''imperial'')) (raw_waist rb)"
  "raw_hip_cm (normalize_raw tn rb) = raw_len tn (raw_unit rb = JStr (js ''imperial'')) (raw_hip rb)"
  by (simp_all add: normalize_raw_def Let_def)

lemma js_inject [simp]: "js s = js t \<longleftrightarrow> s = t"
  by (simp add: js_def inj_map_eq_map inj_on_def)

lemma raw_len_typed: "raw_len tn (u = ''imperial'') (js_number x) = js_number (convert_len u x)"
  by (cases x) (simp_all add: raw_len_def convert_len_def js_number_def truthy_js_def truthy_def
      apply_js_def to_number_def)

lemma raw_round_typed:
  "raw_round tn (u = ''imperial'') conv (js_number x) = js_number (convert_round u conv x)"
  by (cases x) (simp_all add: raw_round_def convert_round_def js_number_def truthy_js_def
      truthy_def apply_js_def to_number_def)

lemma raw_unit_page:
  "(raw_unit (raw_of body) = JStr (js ''imperial''))
     = ((if truthy_str (unit body) then the (unit body) else ''metric'') = ''imperial'')"
  by (cases "unit body") (auto simp: raw_of_def truthy_str_def)

lemma raw_unit_api:
  "(raw_unit (raw_of body) = JStr (js ''imperial''))
     = ((if unit body = Some ''imperial'' then ''imperial'' else ''metric'') = ''imperial'')"
  by (cases "unit body") (auto simp: raw_of_def)

lemma raw_of_fields:
  "raw_height (raw_of body) = js_number (height body)"
  "raw_weight (raw_of body) = js_number (weight body)"
  "raw_bust (raw_of body) = js_number (bust body)"
  "raw_waist (raw_of body) = js_number (waist body)"
  "raw_hip (raw_of body) = js_number (hip body)"
  by (simp_all add: raw_of_def)

text \<open>
  On a body of the declared type the normalization of the typed handlers is the
  normalization of the values as they are read.
\<close>

lemma normalize_raw_typed:
  "raw_height_cm (normalize_raw tn (raw_of body)) = js_number (height_cm (normalize_page up body))"
  "raw_weight_kg (normalize_raw tn (raw_of body)) = js_number (weight_kg (normalize_page up body))"
  "raw_bust_cm (normalize_raw tn (raw_of body)) = js_number (bust_cm (normalize_page up body))"
  "raw_waist_cm (normalize_raw tn (raw_of body)) = js_number (waist_cm (normalize_page up body))"
  "raw_hip_cm (normalize_raw tn (raw_of body)) = js_number (hip_cm (normalize_page up body))"
  by (simp_all only: normalize_raw_fields raw_of_fields raw_unit_page raw_len_typed raw_round_typed
      normalize_page_def normalize_with_fields)

lemma normalize_raw_typed_api:
  "raw_height_cm (normalize_raw tn (raw_of body)) = js_number (height_cm (normalize_api up body))"
  "raw_weight_kg (normalize_raw tn (raw_of body)) = js_number (weight_kg (normalize_api up body))"
  "raw_bust_cm (normalize_raw tn (raw_of body)) = js_number (bust_cm (normalize_api up body))"
  "raw_waist_cm (normalize_raw tn (raw_of body)) = js_number (waist_cm (normalize_api up body))"
  "raw_hip_cm (normalize_raw tn (raw_of body)) = js_number (hip_cm (normalize_api up body))"
  by (simp_all only: normalize_raw_fields raw_of_fields raw_unit_api raw_len_typed raw_round_typed
      normalize_api_def normalize_with_fields)

lemma typed_zero_is_absent:
  "normalize_with up u (body\<lparr>bust := Some 0\<rparr>) = normalize_with up u (body\<lparr>bust := None\<rparr>)"
  by (simp add: normalize_with_def convert_len_def truthy_def)

text \<open>
  Claim C5, as amended. The statement is about the values the handlers compute from
  \<open>body.height\<close>, \<open>body.weight\<close>, \<open>body.bust\<close>, \<open>body.waist\<close> and \<open>body.hip\<close> as they are
  read from the parsed body, of any JSON type. A field that is missing (undefined or
  null) normalizes to absent, never to zero and never to a default. A field given as the
  number zero normalizes to absent as well, so the normalized state does not distinguish
  a field that was not provided from one provided as exactly zero: replacing a zero by a
  missing value leaves the whole normalized state as it was, in the typed handlers the
  bra-derived bust estimate included. A field given as a nonzero number is kept: a length
  as it is, or converted from inches when the unit is imperial, and never as zero; the
  height and the weight converted likewise and rounded to the nearest integer.
\<close>

theorem normalization_absence:
  "(raw_height rb \<in> {JUndefined, JNull, JNum 0} \<longrightarrow> raw_height_cm (normalize_raw tn rb) = JUndefined)
   \<and> (raw_weight rb \<in> {JUndefined, JNull, JNum 0} \<longrightarrow> raw_weight_kg (normalize_raw tn rb) = JUndefined)
   \<and> (raw_bust rb \<in> {JUndefined, JNull, JNum 0} \<longrightarrow> raw_bust_cm (normalize_raw tn rb) = JUndefined)
   \<and> (raw_waist rb \<in> {JUndefined, JNull, JNum 0} \<longrightarrow> raw_waist_cm (normalize_raw tn rb) = JUndefined)
   \<and> (raw_hip rb \<in> {JUndefined, JNull, JNum 0} \<longrightarrow> raw_hip_cm (normalize_raw tn rb) = JUndefined)
   \<and> normalize_raw tn (rb\<lparr>raw_height := JNum 0\<rparr>) = normalize_raw tn (rb\<lparr>raw_height := JUndefined\<rparr>)
   \<and> normalize_raw tn (rb\<lparr>raw_weight := JNum 0\<rparr>) = normalize_raw tn (rb\<lparr>raw_weight := JUndefined\<rparr>)
   \<and> normalize_raw tn (rb\<lparr>raw_bust := JNum 0\<rparr>) = normalize_raw tn (rb\<lparr>raw_bust := JUndefined\<rparr>)
   \<and> normalize_raw tn (rb\<lparr>raw_waist := JNum 0\<rparr>) = normalize_raw tn (rb\<lparr>raw_waist := JUndefined\<rparr>)
   \<and> normalize_raw tn (rb\<lparr>raw_hip := JNum 0\<rparr>) = normalize_raw tn (rb\<lparr>raw_hip := JUndefined\<rparr>)
   \<and> normalize_page up (body\<lparr>bust := Some 0\<rparr>) = normalize_page up (body\<lparr>bust := None\<rparr>)
   \<and> normalize_api up (body\<lparr>bust := Some 0\<rparr>) = normalize_api up (body\<lparr>bust := None\<rparr>)
   \<and> (raw_bust rb = JNum xb \<and> xb \<noteq> 0 \<longrightarrow>
        raw_bust_cm (normalize_raw tn rb)
          = JNum (if raw_unit rb = JStr (js ''imperial'') then inToCm xb else xb)
        \<and> raw_bust_cm (normalize_raw tn rb) \<noteq> JNum 0)
   \<and> (raw_waist rb = JNum xw \<and> xw \<noteq> 0 \<longrightarrow>
        raw_waist_cm (normalize_raw tn rb)
          = JNum (if raw_unit rb = JStr (js ''imperial'') then inToCm xw else xw)
        \<and> raw_waist_cm (normalize_raw tn rb) \<noteq> JNum 0)
   \<and> (raw_hip rb = JNum xh \<and> xh \<noteq> 0 \<longrightarrow>
        raw_hip_cm (normalize_raw tn rb)
          = JNum (if raw_unit rb = JStr (js ''imperial'') then inToCm xh else xh)
        \<and> raw_hip_cm (normalize_raw tn rb) \<noteq> JNum 0)
   \<and> (raw_height rb = JNum xt \<and> xt \<noteq> 0 \<longrightarrow>
        raw_height_cm (normalize_raw tn rb)
          = JNum (Math_round (if raw_unit rb = JStr (js ''imperial'') then inToCm xt else xt)))
   \<and> (raw_weight rb = JNum xk \<and> xk \<noteq> 0 \<longrightarrow>
        raw_weight_kg (normalize_raw tn rb)
          = JNum (Math_round (if raw_unit rb = JStr (js ''imperial'') then lbToKg xk else xk)))"
proof -
  have absent: "raw_height rb \<in> {JUndefined, JNull, JNum 0} \<longrightarrow> raw_height_cm (normalize_raw tn rb) = JUndefined"
    "raw_weight rb \<in> {JUndefined, JNull, JNum 0} \<longrightarrow> raw_weight_kg (normalize_raw tn rb) = JUndefined"
    "raw_bust rb \<in> {JUndefined, JNull, JNum 0} \<longrightarrow> raw_bust_cm (normalize_raw tn rb) = JUndefined"
    "raw_waist rb \<in> {JUndefined, JNull, JNum 0} \<longrightarrow> raw_waist_cm (normalize_raw tn rb) = JUndefined"
    "raw_hip rb \<in> {JUndefined, JNull, JNum 0} \<longrightarrow> raw_hip_cm (normalize_raw tn rb) = JUndefined"
    using raw_len_absent raw_round_absent by (simp_all only: normalize_raw_fields) blast+
  have same: "normalize_raw tn (rb\<lparr>raw_height := JNum 0\<rparr>) = normalize_raw tn (rb\<lparr>raw_height := JUndefined\<rparr>)"
    "normalize_raw tn (rb\<lparr>raw_weight := JNum 0\<rparr>) = normalize_raw tn (rb\<lparr>raw_weight := JUndefined\<rparr>)"
    "normalize_raw tn (rb\<lparr>raw_bust := JNum 0\<rparr>) = normalize_raw tn (rb\<lparr>raw_bust := JUndefined\<rparr>)"
    "normalize_raw tn (rb\<lparr>raw_waist := JNum 0\<rparr>) = normalize_raw tn (rb\<lparr>raw_waist := JUndefined\<rparr>)"
    "normalize_raw tn (rb\<lparr>raw_hip := JNum 0\<rparr>) = normalize_raw tn (rb\<lparr>raw_hip := JUndefined\<rparr>)"
    by (simp_all add: normalize_raw_def raw_len_def raw_round_def truthy_js_def)
  have typed: "normalize_page up (body\<lparr>bust := Some 0\<rparr>) = normalize_page up (body\<lparr>bust := None\<rparr>)"
    "normalize_api up (body\<lparr>bust := Some 0\<rparr>) = normalize_api up (body\<lparr>bust := None\<rparr>)"
    by (simp_all add: normalize_page_def normalize_api_def typed_zero_is_absent)
  have kept: "raw_bust rb = JNum xb \<and> xb \<noteq> 0 \<longrightarrow>
        raw_bust_cm (normalize_raw tn rb)
          = JNum (if raw_unit rb = JStr (js ''imperial'') then inToCm xb else xb)
        \<and> raw_bust_cm (normalize_raw tn rb) \<noteq> JNum 0"
    "raw_waist rb = JNum xw \<and> xw \<noteq> 0 \<longrightarrow>
        raw_waist_cm (normalize_raw tn rb)
          = JNum (if raw_unit rb = JStr (js ''imperial'') then inToCm xw else xw)
        \<and> raw_waist_cm (normalize_raw tn rb) \<noteq> JNum 0"
    "raw_hip rb = JNum xh \<and> xh \<noteq> 0 \<longrightarrow>
        raw_hip_cm (normalize_raw tn rb)
          = JNum (if raw_unit rb = JStr (js ''imperial'') then inToCm xh else xh)
        \<and> raw_hip_cm (normalize_raw tn rb) \<noteq> JNum 0"
    by (simp_all add: normalize_raw_fields raw_len_number)
  have rounded: "raw_height rb = JNum xt \<and> xt \<noteq> 0 \<longrightarrow>
        raw_height_cm (normalize_raw tn rb)
          = JNum (Math_round (if raw_unit rb = JStr (js ''imperial'') then inToCm xt else xt))"
    "raw_weight rb = JNum xk \<and> xk \<noteq> 0 \<longrightarrow>
        raw_weight_kg (normalize_raw tn rb)
          = JNum (Math_round (if raw_unit rb = JStr (js ''imperial'') then lbToKg xk else xk))"
    by (simp_all add: normalize_raw_fields raw_round_number)
  from absent same typed kept rounded show ?thesis
    by (intro conjI)
qed

theorem normalization_absence_witness:
  "raw_bust_cm (normalize_raw no_number
      (raw_no_inputs\<lparr>raw_unit := JStr (js ''imperial''), raw_height := JNum 65, raw_weight := JNum 150,
         raw_bust := JNum 36, raw_waist := JNum 30, raw_hip := JNum 40\<rparr>)) = JNum (inToCm 36)
   \<and> raw_height_cm (normalize_raw no_number
      (raw_no_inputs\<lparr>raw_unit := JStr (js ''imperial''), raw_height := JNum 65, raw_weight := JNum 150,
         raw_bust := JNum 36, raw_waist := JNum 30, raw_hip := JNum 40\<rparr>)) = JNum 165
   \<and> raw_weight_kg (normalize_raw no_number
      (raw_no_inputs\<lparr>raw_unit := JStr (js ''imperial''), raw_height := JNum 65, raw_weight := JNum 150,
         raw_bust := JNum 36, raw_waist := JNum 30, raw_hip := JNum 40\<rparr>)) = JNum 68
   \<and> raw_bust_cm (normalize_raw no_number (raw_no_inputs\<lparr>raw_bust := JNull, raw_hip := JNum 0\<rparr>))
       = JUndefined
   \<and> raw_hip_cm (normalize_raw no_number (raw_no_inputs\<lparr>raw_bust := JNull, raw_hip := JNum 0\<rparr>))
       = JUndefined
   \<and> raw_height_cm (normalize_raw no_number (raw_no_inputs\<lparr>raw_bust := JNull, raw_hip := JNum 0\<rparr>))
       = JUndefined"
proof -
  let ?r = "raw_no_inputs\<lparr>raw_unit := JStr (js ''imperial''), raw_height := JNum 65,
    raw_weight := JNum 150, raw_bust := JNum 36, raw_waist := JNum 30, raw_hip := JNum 40\<rparr>"
  let ?q = "raw_no_inputs\<lparr>raw_bust := JNull, raw_hip := JNum 0\<rparr>"
  have r: "raw_unit ?r = JStr (js ''imperial'')" "raw_height ?r = JNum 65" "raw_weight ?r = JNum 150"
    "raw_bust ?r = JNum 36" "raw_waist ?r = JNum 30" "raw_hip ?r = JNum 40"
    by (simp_all add: raw_no_inputs_def)
  have q: "raw_height ?q = JUndefined" "raw_weight ?q = JUndefined" "raw_bust ?q = JNull"
    "raw_waist ?q = JUndefined" "raw_hip ?q = JNum 0"
    by (simp_all add: raw_no_inputs_def)
  have m: "Math_round (inToCm 65) = 165" "Math_round (lbToKg 150) = 68"
    by (simp_all add: Math_round_def inToCm_def lbToKg_def fl_eval)
  from normalization_absence [where rb = ?r and tn = no_number and xb = 36 and xw = 30
      and xh = 40 and xt = 65 and xk = 150] r m
  have one: "raw_bust_cm (normalize_raw no_number ?r) = JNum (inToCm 36)
      \<and> raw_height_cm (normalize_raw no_number ?r) = JNum 165
      \<and> raw_weight_kg (normalize_raw no_number ?r) = JNum 68"
    by simp
  note t = normalization_absence [where rb = ?q and tn = no_number and up = no_upper
      and body = no_inputs and xb = 1 and xw = 1 and xh = 1 and xt = 1 and xk = 1]
  from t have "raw_bust ?q \<in> {JUndefined, JNull, JNum 0}
      \<longrightarrow> raw_bust_cm (normalize_raw no_number ?q) = JUndefined"
    by fast
  moreover from t have "raw_hip ?q \<in> {JUndefined, JNull, JNum 0}
      \<longrightarrow> raw_hip_cm (normalize_raw no_number ?q) = JUndefined"
    by fast
  moreover from t have "raw_height ?q \<in> {JUndefined, JNull, JNum 0}
      \<longrightarrow> raw_height_cm (normalize_raw no_number ?q) = JUndefined"
    by fast
  ultimately have two: "raw_bust_cm (normalize_raw no_number ?q) = JUndefined
      \<and> raw_hip_cm (normalize_raw no_number ?q) = JUndefined
      \<and> raw_height_cm (normalize_raw no_number ?q) = JUndefined"
    by (simp only: q insert_iff simp_thms)
  from one two show ?thesis by simp
qed

text \<open>
  The claim as written fails twice. A bust given as exactly zero is normalized just as a
  bust that was omitted, so the two are not distinguished. And a malformed bust, the
  string \<open>abc\<close>, does not normalize to absent: it is kept as it is.
\<close>

theorem zero_and_malformed_counterexample:
  "normalize_raw no_number (raw_no_inputs\<lparr>raw_bust := JNum 0\<rparr>) = normalize_raw no_number raw_no_inputs
   \<and> raw_bust_cm (normalize_raw no_number (raw_no_inputs\<lparr>raw_bust := JStr (js ''abc'')\<rparr>))
       = JStr (js ''abc'')
   \<and> raw_height_cm (normalize_raw no_number (raw_no_inputs\<lparr>raw_height := JStr (js ''abc'')\<rparr>)) = JNaN"
  by (simp add: normalize_raw_def raw_len_def raw_round_def truthy_js_def raw_no_inputs_def
      apply_js_def to_number_def no_number_def js_def)

section \<open>The analytics sink\<close>

lemma POST_answers:
  "POST up (Json body) (Resolved r)
     = (let n = normalize_page up body;
            sz = or_else (pickFromChart (bust_est n) (waist_cm n) (hip_cm n))
                   (sizeByHW (height_cm n) (weight_kg n)) ''M'';
            coverage = chooseCoverage (activity body) (modesty body)
                         (tummy_control body = Some True) (style_preference body);
            notes = fitCopy sz coverage body
        in (Ok_json sz coverage notes, Some (make_row body n sz coverage notes)))"
  by (simp add: POST_def Let_def)

lemma POST_api_answers:
  "POST_api up env (Json body) (Resolved r)
     = (let n = normalize_api up body;
            sz = or_else (pickFromChart_api (bust_est n) (waist_cm n) (hip_cm n))
                   (sizeByHW (height_cm n) (weight_kg n)) ''M'';
            coverage = chooseCoverage (activity body) (modesty body)
                         (tummy_control body = Some True) (style_preference body);
            notes = fitCopy_api sz coverage (tummy_control body = Some True) (activity body)
                      (modesty body)
        in (Ok_json sz coverage notes, if env then Some (make_row body n sz coverage notes) else None))"
  by (simp add: POST_api_def Let_def)

lemma POST_unparseable:
  "POST up (Unparseable e) sink = (Error_json (error_text e), None)"
  "POST_api up env (Unparseable e) sink = (Error_json (error_text e), None)"
  by (simp_all add: POST_def POST_api_def)

lemma POST_write_result:
  "POST up req (Resolved r) = POST up req (Resolved None)"
  "POST_api up env req (Resolved r) = POST_api up env req (Resolved None)"
  by (cases req; simp add: POST_answers POST_api_answers POST_unparseable)+

lemma POST_api_skipped:
  "fst (POST_api up True req (Resolved r)) = fst (POST_api up False req (Resolved r'))"
  by (cases req) (simp_all add: POST_api_answers POST_unparseable Let_def)

text \<open>
  Claim C4. The claim says that a failed analytics write, and a sink that is not
  configured, are both swallowed: the recommendation is returned all the same, and the
  response is the same whether the write succeeds, fails or is skipped. What the routes
  do: once the module is loaded, the handler never reads the result of the awaited
  insert, so the response (and the row handed over) is the same whether the write failed
  or not, and in the api route the response is the same when the write is skipped. But
  both modules construct the client when they are loaded, outside the handler and its
  \<open>try\<close>: when the constructor throws, as it does for a missing URL or key, the module is
  never loaded, and no request is answered with a recommendation, whatever the request
  and whatever the handler would have done.
\<close>

theorem sink_failure_outcome:
  "(createClient url key = Some e \<longrightarrow>
      route_page createClient url key up req sink = Module_failed e
      \<and> route_api createClient url key up req sink = Module_failed e)
   \<and> (createClient url key = None \<longrightarrow>
      route_page createClient url key up req (Resolved r)
        = route_page createClient url key up req (Resolved None)
      \<and> route_api createClient url key up req (Resolved r)
        = route_api createClient url key up req (Resolved None)
      \<and> (\<exists>sz cov notes row. route_page createClient url key up (Json body) (Resolved r)
            = Handled (Ok_json sz cov notes) row)
      \<and> (\<exists>sz cov notes row. route_api createClient url key up (Json body) (Resolved r)
            = Handled (Ok_json sz cov notes) row))
   \<and> fst (POST_api up True req (Resolved r)) = fst (POST_api up False req (Resolved r'))"
proof (intro conjI impI)
  assume "createClient url key = Some e"
  then show "route_page createClient url key up req sink = Module_failed e"
    "route_api createClient url key up req sink = Module_failed e"
    by (simp_all add: route_page_def route_api_def)
next
  assume c: "createClient url key = None"
  show "route_page createClient url key up req (Resolved r)
      = route_page createClient url key up req (Resolved None)"
    by (simp add: route_page_def c POST_write_result(1) [of up req r])
  show "route_api createClient url key up req (Resolved r)
      = route_api createClient url key up req (Resolved None)"
    by (simp add: route_api_def c POST_write_result(2) [of up _ req r])
  show "\<exists>sz cov notes row. route_page createClient url key up (Json body) (Resolved r)
      = Handled (Ok_json sz cov notes) row"
    by (simp add: route_page_def c POST_answers Let_def)
  show "\<exists>sz cov notes row. route_api createClient url key up (Json body) (Resolved r)
      = Handled (Ok_json sz cov notes) row"
    by (simp add: route_api_def c POST_api_answers Let_def)
next
  show "fst (POST_api up True req (Resolved r)) = fst (POST_api up False req (Resolved r'))"
    by (rule POST_api_skipped)
qed

theorem sink_failure_outcome_witness:
  "route_page createClient_checked None None no_upper (Json no_inputs) (Resolved None)
     = Module_failed (JsError ''Error'' ''supabaseUrl is required.'')
   \<and> route_api createClient_checked None None no_upper (Json no_inputs) (Resolved None)
     = Module_failed (JsError ''Error'' ''supabaseUrl is required.'')
   \<and> route_api createClient_checked (Some ''https://example.supabase.co'') None no_upper
       (Json no_inputs) (Resolved None)
     = Module_failed (JsError ''Error'' ''supabaseKey is required.'')
   \<and> route_page createClient_checked (Some ''https://example.supabase.co'') (Some ''service-role'')
       no_upper (Json no_inputs) (Resolved (Some ''fetch failed''))
     = route_page createClient_checked (Some ''https://example.supabase.co'') (Some ''service-role'')
       no_upper (Json no_inputs) (Resolved None)
   \<and> route_api createClient_checked (Some ''https://example.supabase.co'') (Some ''service-role'')
       no_upper (Json no_inputs) (Resolved (Some ''fetch failed''))
     = route_api createClient_checked (Some ''https://example.supabase.co'') (Some ''service-role'')
       no_upper (Json no_inputs) (Resolved None)"
proof -
  have a: "createClient_checked None None = Some (JsError ''Error'' ''supabaseUrl is required.'')"
    "createClient_checked (Some ''https://example.supabase.co'') None
       = Some (JsError ''Error'' ''supabaseKey is required.'')"
    "createClient_checked (Some ''https://example.supabase.co'') (Some ''service-role'') = None"
    by (simp_all add: createClient_checked_def truthy_str_def)
  from sink_failure_outcome [where createClient = createClient_checked and url = None
      and key = None and e = "JsError ''Error'' ''supabaseUrl is required.''" and up = no_upper
      and req = "Json no_inputs" and sink = "Resolved None" and body = no_inputs
      and r = None and r' = None] a(1)
  have one: "route_page createClient_checked None None no_upper (Json no_inputs) (Resolved None)
       = Module_failed (JsError ''Error'' ''supabaseUrl is required.'')
     \<and> route_api createClient_checked None None no_upper (Json no_inputs) (Resolved None)
       = Module_failed (JsError ''Error'' ''supabaseUrl is required.'')"
    by simp
  from sink_failure_outcome [where createClient = createClient_checked
      and url = "Some ''https://example.supabase.co''"
      and key = None and e = "JsError ''Error'' ''supabaseKey is required.''" and up = no_upper
      and req = "Json no_inputs" and sink = "Resolved None" and body = no_inputs
      and r = None and r' = None] a(2)
  have two: "route_api createClient_checked (Some ''https://example.supabase.co'') None no_upper
       (Json no_inputs) (Resolved None)
     = Module_failed (JsError ''Error'' ''supabaseKey is required.'')"
    by simp
  from sink_failure_outcome [where createClient = createClient_checked
      and url = "Some ''https://example.supabase.co''"
      and key = "Some ''service-role''" and e = "JsError ''Error'' ''supabaseKey is required.''"
      and up = no_upper and req = "Json no_inputs" and sink = "Resolved None" and body = no_inputs
      and r = "Some ''fetch failed''" and r' = None] a(3)
  have three: "route_page createClient_checked (Some ''https://example.supabase.co'') (Some ''service-role'')
       no_upper (Json no_inputs) (Resolved (Some ''fetch failed''))
     = route_page createClient_checked (Some ''https://example.supabase.co'') (Some ''service-role'')
       no_upper (Json no_inputs) (Resolved None)
     \<and> route_api createClient_checked (Some ''https://example.supabase.co'') (Some ''service-role'')
       no_upper (Json no_inputs) (Resolved (Some ''fetch failed''))
     = route_api createClient_checked (Some ''https://example.supabase.co'') (Some ''service-role'')
       no_upper (Json no_inputs) (Resolved None)"
    by fast
  from one two three show ?thesis by simp
qed

section \<open>Unit round trip\<close>







end
